theory Spec2Isabelle
  imports Complex_Main "HOL-Library.List_Lexorder" "HOL-Library.Char_ord"
begin

section \<open>JavaScript values\<close>

text \<open>
  The engine is the class \<open>ApiService\<close> (TypeScript). Its \<open>number\<close> is
  modelled by \<^typ>\<open>real\<close>: rounding and the infinities of IEEE doubles are idealised
  away. An optional numeric field (\<open>current_price?: number\<close>) is a \<^typ>\<open>real option\<close>
  in which \<open>None\<close> stands for both \<open>undefined\<close> and \<open>NaN\<close> (what \<open>parseFloat\<close>
  yields for a field the upstream left out): the code only ever tests such a field for
  truthiness (where \<open>0\<close> is falsy as well) or compares it, and both values are falsy
  and make every comparison false.
  The closes of a price series are taken to be numbers.
\<close>

definition or_zero :: "real option \<Rightarrow> real" where
  \<comment> \<open>\<open>v || 0\<close>\<close>
  "or_zero v = (case v of None \<Rightarrow> 0 | Some x \<Rightarrow> x)"

definition js_gt :: "real option \<Rightarrow> real option \<Rightarrow> bool" where
  \<comment> \<open>\<open>a > b\<close>; false as soon as one side is \<open>undefined\<close> or \<open>NaN\<close>\<close>
  "js_gt a b = (case a of None \<Rightarrow> False
                | Some x \<Rightarrow> (case b of None \<Rightarrow> False | Some y \<Rightarrow> x > y))"

definition js_or :: "string option \<Rightarrow> string option \<Rightarrow> string option" where
  \<comment> \<open>\<open>a || b\<close> on optional strings: the empty string is falsy\<close>
  "js_or a b = (case a of None \<Rightarrow> b | Some m \<Rightarrow> if m = [] then b else Some m)"

definition last_elem :: "'a list \<Rightarrow> 'a option" where
  \<comment> \<open>\<open>xs[xs.length - 1]\<close>: \<open>undefined\<close> on the empty array\<close>
  "last_elem xs = (if xs = [] then None else Some (last xs))"

definition slice :: "nat \<Rightarrow> nat \<Rightarrow> 'a list \<Rightarrow> 'a list" where
  \<comment> \<open>\<open>xs.slice(a, b)\<close> for non-negative \<open>a\<close>, \<open>b\<close>: the end is clamped to the length\<close>
  "slice a b xs = take (b - a) (drop a xs)"

definition reduce_add :: "real list \<Rightarrow> real" where
  \<comment> \<open>\<open>xs.reduce((a, b) => a + b, 0)\<close>\<close>
  "reduce_add xs = foldl (\<lambda>a b. a + b) 0 xs"

section \<open>Upstream bodies\<close>

text \<open>
  \<open>axios.get\<close> either resolves with a body or throws an error that may carry
  \<open>response.data.message\<close> and \<open>message\<close>. A body is the empty body (\<open>null\<close>, no
  content), a JSON object read through the fields of its endpoint (any of which may be
  missing), the upstream's error report (a JSON object \<open>{code, message, status}\<close> with
  none of those fields, delivered with status 200), or text that is not JSON, of which only
  the length matters. The numeric fields of an object are given by what
  \<open>parseFloat\<close>/\<open>parseInt\<close> read from them, and \<open>values\<close>, when present, is an array
  of bars.
\<close>

record axios_error =
  response_data_message :: "string option"
  message :: "string option"

record quote_payload =
  quote_symbol :: "string option"
  quote_name :: "string option"
  quote_close :: "real option"
  quote_change :: "real option"
  quote_percent_change :: "real option"
  quote_volume :: "real option"
  quote_fifty_two_week_high :: "real option"
  quote_fifty_two_week_low :: "real option"

record profile_payload =
  profile_market_cap :: "real option"
  profile_pe_ratio :: "real option"
  profile_price_to_book :: "real option"
  profile_eps :: "real option"
  profile_dividend_yield :: "real option"
  profile_beta :: "real option"

record earnings_payload =
  earnings_quarterly_revenue_growth :: "real option"
  earnings_quarterly_eps_growth :: "real option"

record growth_payload =
  growth_sales_growth :: "real option"
  growth_eps_growth :: "real option"

record time_series_item =
  item_datetime :: string
  item_open :: real
  item_high :: real
  item_low :: real
  item_close :: real
  item_volume :: real

record time_series_payload =
  payload_values :: "time_series_item list option"

datatype 'p body = Empty | Object 'p | ErrorReport string | Text nat

datatype 'p axios = Resolved "'p body" | Thrown axios_error

definition truthy_body :: "'p body \<Rightarrow> bool" where
  \<comment> \<open>\<open>if (response.data)\<close>: \<open>null\<close> and the empty text are falsy\<close>
  "truthy_body b = (case b of Empty \<Rightarrow> False | Object p \<Rightarrow> True | ErrorReport m \<Rightarrow> True
                    | Text n \<Rightarrow> n \<noteq> 0)"

definition get_field :: "'p body \<Rightarrow> ('p \<Rightarrow> 'v option) \<Rightarrow> 'v option" where
  \<comment> \<open>\<open>body.f\<close> for a field \<open>f\<close> of the endpoint: only its object can have it\<close>
  "get_field b f = (case b of Empty \<Rightarrow> None | Object p \<Rightarrow> f p | ErrorReport m \<Rightarrow> None
                    | Text n \<Rightarrow> None)"

definition body_length :: "'p body \<Rightarrow> nat option" where
  \<comment> \<open>\<open>body.length\<close>: a text has one, the upstream's objects do not\<close>
  "body_length b = (case b of Empty \<Rightarrow> None | Object p \<Rightarrow> None | ErrorReport m \<Rightarrow> None
                      | Text n \<Rightarrow> Some n)"

section \<open>Data model (src/types/index.ts)\<close>

text \<open>
  Only the fields that the service assigns or reads are kept; the other optional fields
  of the interfaces are never set by it. Where two interfaces share a field name, or a
  field has the name of a HOL constant (\<open>open\<close>), the field carries a suffix.
\<close>

record 'a ApiResponse =
  data :: "'a option"
  error :: "string option"
  success :: bool

record Stock =
  symbol :: "string option"
  company_name :: "string option"
  current_price :: "real option"
  price_change :: "real option"
  price_change_percent :: "real option"
  volume :: "real option"
  high_52w :: "real option"
  low_52w :: "real option"

record StockFundamentals =
  market_cap :: "real option"
  pe_ratio :: "real option"
  price_to_book :: "real option"
  eps :: "real option"
  dividend_yield :: "real option"
  beta :: "real option"
  quarterly_revenue_growth :: "real option"
  quarterly_eps_growth :: "real option"
  estimated_sales_growth :: "real option"
  estimated_eps_growth :: "real option"

record PriceHistory =
  date :: string
  open_bar :: real
  high :: real
  low :: real
  close :: real
  volume_bar :: real

record ScreeningResult =
  price_above_sma200 :: bool
  sma50_above_sma200 :: bool
  sma100_above_sma200 :: bool
  current_price_result :: real
  sma50 :: "real option"
  sma100 :: "real option"
  sma200 :: "real option"
  passes_all_criteria :: bool
  meets_all_criteria :: bool
  score :: real

text \<open>
  \<open>getStockTimeSeries\<close> hands the upstream response on unchanged when its body has no
  \<open>values\<close>, so the \<open>price_history\<close> of a stock is either an array of bars or such a
  body as it came (\<open>Raw\<close>).
\<close>

datatype history = Bars "PriceHistory list" | Raw "time_series_payload body"

record StockWithScreening = Stock +
  screening_result :: "ScreeningResult option"
  fundamentals :: "StockFundamentals option"
  price_history :: "history option"

definition usable :: "'a ApiResponse \<Rightarrow> bool" where
  \<comment> \<open>the test \<open>response.success && response.data\<close> that every caller applies\<close>
  "usable r = (success r \<and> data r \<noteq> None)"

section \<open>The market data gateway and \<open>makeRequest\<close>\<close>

record Gateway =
  quote_endpoint :: "string \<Rightarrow> quote_payload axios"
  profile_endpoint :: "string \<Rightarrow> profile_payload axios"
  earnings_endpoint :: "string \<Rightarrow> earnings_payload axios"
  growth_estimates_endpoint :: "string \<Rightarrow> growth_payload axios"
  time_series_endpoint :: "string \<Rightarrow> string \<Rightarrow> nat \<Rightarrow> time_series_payload axios"

text \<open>
  The \<open>data\<close> of a response is kept when it is truthy; a falsy body behaves as an absent
  one in every test the service makes (\<open>response.data\<close>, \<open>response.data?.values\<close>).
\<close>

definition makeRequest :: "'p axios \<Rightarrow> 'p body ApiResponse" where
  "makeRequest r =
     (case r of
        Resolved b \<Rightarrow>
          \<lparr>data = (if truthy_body b then Some b else None), error = None, success = True\<rparr>
      | Thrown e \<Rightarrow>
          \<lparr>data = None,
           error = js_or (js_or (response_data_message e) (message e)) (Some ''Network error''),
           success = False\<rparr>)"

text \<open>
  \<open>return response\<close> at another payload type. It is reached only when the response
  is not usable, and a response of \<open>makeRequest\<close> that is not usable carries no body.
\<close>

definition pass_through :: "'a ApiResponse \<Rightarrow> 'b ApiResponse" where
  "pass_through response = \<lparr>data = None, error = error response, success = success response\<rparr>"

definition getStockQuote :: "Gateway \<Rightarrow> string \<Rightarrow> Stock ApiResponse" where
  "getStockQuote gw symbol' =
     (let response = makeRequest (quote_endpoint gw symbol') in
      case data response of
        None \<Rightarrow> pass_through response
      | Some d \<Rightarrow>
          if success response
          then \<lparr>data = Some \<lparr>symbol = get_field d quote_symbol,
                             company_name = get_field d quote_name,
                             current_price = get_field d quote_close,
                             price_change = get_field d quote_change,
                             price_change_percent = get_field d quote_percent_change,
                             volume = get_field d quote_volume,
                             high_52w = get_field d quote_fifty_two_week_high,
                             low_52w = get_field d quote_fifty_two_week_low\<rparr>,
                error = None, success = True\<rparr>
          else pass_through response)"

text \<open>
  Here \<open>return response\<close> keeps the body: the response goes to the caller as it is, its
  \<open>data\<close> being the body without \<open>values\<close>.
\<close>

definition getStockTimeSeries :: "Gateway \<Rightarrow> string \<Rightarrow> string \<Rightarrow> nat \<Rightarrow> history ApiResponse" where
  "getStockTimeSeries gw symbol' interval outputsize =
     (let response = makeRequest (time_series_endpoint gw symbol' interval outputsize);
          handed_on = \<lparr>data = map_option Raw (data response), error = error response,
                        success = success response\<rparr>
      in case Option.bind (data response) (\<lambda>d. get_field d payload_values) of
           None \<Rightarrow> handed_on
         | Some vs \<Rightarrow>
             if success response
             then \<lparr>data = Some (Bars (map (\<lambda>item. \<lparr>date = item_datetime item,
                                                       open_bar = item_open item,
                                                       high = item_high item,
                                                       low = item_low item,
                                                       close = item_close item,
                                                       volume_bar = item_volume item\<rparr>) vs)),
                   error = None, success = True\<rparr>
             else handed_on)"

definition getStockFundamentals :: "Gateway \<Rightarrow> string \<Rightarrow> StockFundamentals ApiResponse" where
  "getStockFundamentals gw symbol' =
     (let profileResponse = makeRequest (profile_endpoint gw symbol');
          earningsResponse = makeRequest (earnings_endpoint gw symbol');
          growthResponse = makeRequest (growth_estimates_endpoint gw symbol')
      in case data profileResponse of
           None \<Rightarrow> pass_through profileResponse
         | Some profile \<Rightarrow>
             if success profileResponse
             then (let earnings = data earningsResponse;
                       growth = data growthResponse
                   in \<lparr>data = Some
                          \<lparr>market_cap = get_field profile profile_market_cap,
                           pe_ratio = get_field profile profile_pe_ratio,
                           price_to_book = get_field profile profile_price_to_book,
                           eps = get_field profile profile_eps,
                           dividend_yield = get_field profile profile_dividend_yield,
                           beta = get_field profile profile_beta,
                           quarterly_revenue_growth =
                             Option.bind earnings (\<lambda>e. get_field e earnings_quarterly_revenue_growth),
                           quarterly_eps_growth =
                             Option.bind earnings (\<lambda>e. get_field e earnings_quarterly_eps_growth),
                           estimated_sales_growth =
                             Option.bind growth (\<lambda>g. get_field g growth_sales_growth),
                           estimated_eps_growth =
                             Option.bind growth (\<lambda>g. get_field g growth_eps_growth)\<rparr>,
                        error = None, success = True\<rparr>)
             else pass_through profileResponse)"

section \<open>Symbol aggregator\<close>

text \<open>
  The three sub-calls catch every transport error inside \<open>makeRequest\<close>, so each of
  their promises fulfils and \<open>Promise.all\<close> yields the three responses in call order.
\<close>

definition getStockDetails :: "Gateway \<Rightarrow> string \<Rightarrow> StockWithScreening ApiResponse" where
  "getStockDetails gw symbol' =
     (let quoteResponse = getStockQuote gw symbol';
          fundamentalsResponse = getStockFundamentals gw symbol';
          timeSeriesResponse = getStockTimeSeries gw symbol' ''1day'' 200
      in case data quoteResponse of
           None \<Rightarrow> pass_through quoteResponse
         | Some q \<Rightarrow>
             if success quoteResponse
             then \<lparr>data = Some \<lparr>symbol = symbol q,
                                company_name = company_name q,
                                current_price = current_price q,
                                price_change = price_change q,
                                price_change_percent = price_change_percent q,
                                volume = volume q,
                                high_52w = high_52w q,
                                low_52w = low_52w q,
                                screening_result = None,
                                fundamentals = data fundamentalsResponse,
                                price_history = data timeSeriesResponse\<rparr>,
                   error = None, success = True\<rparr>
             else pass_through quoteResponse)"

section \<open>Result cache\<close>

text \<open>
  \<open>AsyncStorage\<close> maps a key to the JSON text of \<open>{data, timestamp}\<close>. An item is an
  entry, or text from which no entry can be read (\<open>JSON.parse\<close> throws); \<open>available\<close>
  is false when the storage calls themselves reject. Times are milliseconds
  (\<open>Date.now()\<close>).
\<close>

datatype 'a item = Entry 'a int | Corrupt

record 'a storage =
  items :: "string \<Rightarrow> 'a item option"
  available :: bool

definition CACHE_DURATION :: int where
  "CACHE_DURATION = 5 * 60 * 1000"

definition getCachedData :: "'a storage \<Rightarrow> int \<Rightarrow> string \<Rightarrow> 'a option" where
  "getCachedData st now key =
     (if \<not> available st then None
      else (case items st key of
              None \<Rightarrow> None
            | Some Corrupt \<Rightarrow> None
            | Some (Entry d timestamp) \<Rightarrow>
                if now - timestamp < CACHE_DURATION then Some d else None))"

definition setCachedData :: "'a storage \<Rightarrow> int \<Rightarrow> string \<Rightarrow> 'a \<Rightarrow> 'a storage" where
  "setCachedData st now key d =
     (if \<not> available st then st
      else st\<lparr>items := (items st)(key := Some (Entry d now))\<rparr>)"

section \<open>Indicator engine\<close>

text \<open>
  The \<open>for\<close> loop of \<open>calculateSMA\<close>, started at \<open>i = period - 1\<close>. The period is a
  positive integer (the call sites pass 50, 100 and 200), so the window start
  \<open>i - period + 1\<close> is never negative; it is written \<open>i + 1 - period\<close> on naturals.
\<close>

function calculateSMA_loop :: "real list \<Rightarrow> nat \<Rightarrow> nat \<Rightarrow> real list \<Rightarrow> real list" where
  "calculateSMA_loop prices period i sma =
     (if i < length prices
      then calculateSMA_loop prices period (i + 1)
             (sma @ [reduce_add (slice (i + 1 - period) (i + 1) prices) / real period])
      else sma)"
  by pat_completeness auto
termination
  by (relation "measure (\<lambda>(prices, period, i, sma). length prices - i)") auto

declare calculateSMA_loop.simps [simp del]

definition calculateSMA :: "real list \<Rightarrow> nat \<Rightarrow> real list" where
  "calculateSMA prices period = calculateSMA_loop prices period (period - 1) []"

text \<open>The specification's \<open>simpleMovingAverage\<close>, written from its words.\<close>

definition window_mean :: "real list \<Rightarrow> nat \<Rightarrow> nat \<Rightarrow> real" where
  \<comment> \<open>arithmetic mean of \<open>s[i .. i+p-1]\<close>\<close>
  "window_mean s i p = sum_list (take p (drop i s)) / real p"

definition simpleMovingAverage :: "real list \<Rightarrow> nat \<Rightarrow> real list" where
  "simpleMovingAverage s p =
     (if length s < p then [] else map (\<lambda>i. window_mean s i p) [0..<length s - p + 1])"

section \<open>Scoring rule\<close>

definition calculateScore :: "StockWithScreening \<Rightarrow> real" where
  "calculateScore stock =
     (let score0 = 0;
          score1 = (case price_change_percent stock of
                      None \<Rightarrow> score0
                    | Some pc \<Rightarrow> if pc \<noteq> 0 \<and> pc > 0 then score0 + pc * 0.2 else score0);
          score2 = (case volume stock of
                      None \<Rightarrow> score1
                    | Some v \<Rightarrow> if v \<noteq> 0 \<and> v > 1000000 then score1 + 10 else score1);
          score3 = (case Option.bind (fundamentals stock) pe_ratio of
                      None \<Rightarrow> score2
                    | Some pe \<Rightarrow>
                        if pe \<noteq> 0 then (if pe > 0 \<and> pe < 25 then score2 + (25 - pe) * 2 else score2)
                        else score2);
          score4 = (case Option.bind (fundamentals stock) quarterly_revenue_growth of
                      None \<Rightarrow> score3
                    | Some g \<Rightarrow> if g \<noteq> 0 \<and> g > 0 then score3 + g * 0.3 else score3);
          score5 = (case Option.bind (fundamentals stock) quarterly_eps_growth of
                      None \<Rightarrow> score4
                    | Some g \<Rightarrow> if g \<noteq> 0 \<and> g > 0 then score4 + g * 0.3 else score4);
          score6 = (case Option.bind (fundamentals stock) market_cap of
                      None \<Rightarrow> score5
                    | Some marketCap \<Rightarrow>
                        if marketCap \<noteq> 0
                        then (if marketCap > 10000000000 then score5 + 20
                              else if marketCap > 2000000000 then score5 + 10
                              else score5)
                        else score5)
      in max 0 score6)"

text \<open>The specification's score, written from its words: a sum of five terms.\<close>

definition momentum_term :: "real option \<Rightarrow> real" where
  "momentum_term percent_change =
     (case percent_change of None \<Rightarrow> 0 | Some pc \<Rightarrow> if pc > 0 then pc * 0.2 else 0)"

definition liquidity_term :: "real option \<Rightarrow> real" where
  "liquidity_term vol = (case vol of None \<Rightarrow> 0 | Some v \<Rightarrow> if v > 1000000 then 10 else 0)"

definition valuation_term :: "real option \<Rightarrow> real" where
  "valuation_term pe =
     (case pe of None \<Rightarrow> 0 | Some x \<Rightarrow> if 0 < x \<and> x < 25 then (25 - x) * 2 else 0)"

definition growth_term :: "real option \<Rightarrow> real" where
  "growth_term growth = (case growth of None \<Rightarrow> 0 | Some g \<Rightarrow> if g > 0 then g * 0.3 else 0)"

definition scale_term :: "real option \<Rightarrow> real" where
  "scale_term cap =
     (case cap of None \<Rightarrow> 0
      | Some c \<Rightarrow> if c > 10000000000 then 20 else if c > 2000000000 then 10 else 0)"

definition score_spec :: "StockWithScreening \<Rightarrow> real" where
  "score_spec stock =
     momentum_term (price_change_percent stock)
     + liquidity_term (volume stock)
     + valuation_term (Option.bind (fundamentals stock) pe_ratio)
     + growth_term (Option.bind (fundamentals stock) quarterly_revenue_growth)
     + growth_term (Option.bind (fundamentals stock) quarterly_eps_growth)
     + scale_term (Option.bind (fundamentals stock) market_cap)"

section \<open>Screening orchestrator\<close>

definition symbols :: "string list" where
  "symbols =
     [''AAPL'', ''MSFT'', ''GOOGL'', ''AMZN'', ''TSLA'', ''META'', ''NVDA'', ''NFLX'',
      ''CRM'', ''ADBE'', ''ORCL'', ''IBM'', ''INTC'', ''AMD'', ''QCOM'', ''AVGO'',
      ''JPM'', ''BAC'', ''GS'', ''MS'', ''WFC'', ''C'', ''AXP'', ''V'', ''MA'', ''PYPL'']"

text \<open>
  What a promise settles to, as \<open>Promise.allSettled\<close> reports it. \<open>allSettled\<close> gets
  the outcome each promise will have and the order in which the promises settle: each
  settlement writes its slot of the values array, and the combined promise resolves with
  that array once no slot is empty; it stays pending (\<open>None\<close>) otherwise.
\<close>

datatype 'a settled = Fulfilled 'a | Rejected string

definition allSettled :: "'a settled list \<Rightarrow> nat list \<Rightarrow> 'a settled list option" where
  "allSettled promises completion =
     those (fold (\<lambda>i slots. if i < length slots then slots[i := Some (promises ! i)] else slots)
              completion (replicate (length promises) None))"

definition meetsScreening :: "real \<Rightarrow> real option \<Rightarrow> real option \<Rightarrow> real option \<Rightarrow> bool" where
  \<comment> \<open>arguments: \<open>currentPrice\<close>, the last elements of \<open>sma50\<close>, \<open>sma100\<close>, \<open>sma200\<close>\<close>
  "meetsScreening currentPrice last50 last100 last200 =
     (js_gt (Some currentPrice) last200 \<and> js_gt last50 last200 \<and> js_gt last100 last200)"

text \<open>
  The callback of \<open>results.forEach\<close>, threading the array \<open>stocks\<close>. It raises a
  TypeError (\<open>Inl\<close> with its message) when \<open>price_history\<close> reports a length of at least
  200 and has no \<open>map\<close>: a text body handed on by \<open>getStockTimeSeries\<close>.
\<close>

definition not_a_function :: string where
  "not_a_function = ''stock.price_history.map is not a function''"

definition screenCallback ::
  "StockWithScreening list \<Rightarrow> StockWithScreening ApiResponse settled
     \<Rightarrow> string + StockWithScreening list" where
  "screenCallback stocks result =
     (case result of
        Rejected reason \<Rightarrow> Inr stocks
      | Fulfilled v \<Rightarrow>
          (case data v of
             None \<Rightarrow> Inr stocks
           | Some stock \<Rightarrow>
               if \<not> success v then Inr stocks
               else (case price_history stock of
                       None \<Rightarrow> Inr stocks
                     | Some (Raw b) \<Rightarrow>
                         (case body_length b of
                            None \<Rightarrow> Inr stocks
                          | Some n \<Rightarrow> if n \<ge> 200 then Inl not_a_function else Inr stocks)
                     | Some (Bars bars) \<Rightarrow>
                         if length bars \<ge> 200
                         then (let closes = map close bars;
                                   s200 = calculateSMA closes 200;
                                   s50 = calculateSMA closes 50;
                                   s100 = calculateSMA closes 100;
                                   currentPrice = or_zero (current_price stock)
                               in if meetsScreening currentPrice (last_elem s50) (last_elem s100)
                                       (last_elem s200)
                                  then Inr (stocks @
                                    [stock\<lparr>screening_result := Some
                                       \<lparr>price_above_sma200 = js_gt (Some currentPrice) (last_elem s200),
                                        sma50_above_sma200 = js_gt (last_elem s50) (last_elem s200),
                                        sma100_above_sma200 = js_gt (last_elem s100) (last_elem s200),
                                        current_price_result = currentPrice,
                                        sma50 = last_elem s50,
                                        sma100 = last_elem s100,
                                        sma200 = last_elem s200,
                                        passes_all_criteria = True,
                                        meets_all_criteria = True,
                                        score = calculateScore stock\<rparr>\<rparr>])
                                  else Inr stocks)
                         else Inr stocks)))"

text \<open>\<open>results.forEach\<close>: the first exception ends the loop.\<close>

definition forEach_result ::
  "StockWithScreening ApiResponse settled list \<Rightarrow> string + StockWithScreening list" where
  "forEach_result results =
     foldl (\<lambda>acc result. case acc of Inl e \<Rightarrow> Inl e | Inr stocks \<Rightarrow> screenCallback stocks result)
       (Inr []) results"

text \<open>
  A stock as the callback pushes it: the stock with a screening result whose three flags
  hold, carrying the current price, the three indicator values and the score.
\<close>

definition screened ::
  "StockWithScreening \<Rightarrow> real \<Rightarrow> real \<Rightarrow> real \<Rightarrow> real \<Rightarrow> real \<Rightarrow> StockWithScreening" where
  "screened stock cp v50 v100 v200 sc =
     stock\<lparr>screening_result := Some
       \<lparr>price_above_sma200 = True, sma50_above_sma200 = True, sma100_above_sma200 = True,
        current_price_result = cp, sma50 = Some v50, sma100 = Some v100, sma200 = Some v200,
        passes_all_criteria = True, meets_all_criteria = True, score = sc\<rparr>\<rparr>"

definition score_or_0 :: "StockWithScreening \<Rightarrow> real" where
  \<comment> \<open>\<open>s.screening_result?.score || 0\<close>\<close>
  "score_or_0 s = (case screening_result s of None \<Rightarrow> 0 | Some r \<Rightarrow> or_zero (Some (score r)))"

definition compareScore :: "StockWithScreening \<Rightarrow> StockWithScreening \<Rightarrow> real" where
  \<comment> \<open>the comparator \<open>(a, b) => (b.score || 0) - (a.score || 0)\<close>\<close>
  "compareScore a b = score_or_0 b - score_or_0 a"

text \<open>
  \<open>Array.prototype.sort\<close> with a comparator is a stable sort (ECMAScript 2019): an
  element stays in front of every later element it does not compare greater than.
\<close>

fun insert_sorted :: "('a \<Rightarrow> 'a \<Rightarrow> real) \<Rightarrow> 'a \<Rightarrow> 'a list \<Rightarrow> 'a list" where
  "insert_sorted cmp x [] = [x]"
| "insert_sorted cmp x (y # ys) =
     (if cmp x y \<le> 0 then x # y # ys else y # insert_sorted cmp x ys)"

definition array_sort :: "('a \<Rightarrow> 'a \<Rightarrow> real) \<Rightarrow> 'a list \<Rightarrow> 'a list" where
  "array_sort cmp xs = foldr (insert_sorted cmp) xs []"

text \<open>
  \<open>screenStocks\<close> takes no argument. Its model is given what
  \<open>this.getStockDetails(symbol)\<close> settles to for each symbol, and the order in which the
  ten promises settle. Inside the \<open>try\<close> block only the callback can raise; the
  \<open>catch\<close> branch turns its error into a failure response with the error's message.
\<close>

definition screenStocks ::
  "(string \<Rightarrow> StockWithScreening ApiResponse settled) \<Rightarrow> nat list
     \<Rightarrow> StockWithScreening list ApiResponse option" where
  "screenStocks details completion =
     (let stockPromises = map details (slice 0 10 symbols) in
      case allSettled stockPromises completion of
        None \<Rightarrow> None
      | Some results \<Rightarrow>
          (case forEach_result results of
             Inr stocks \<Rightarrow>
               (let sorted_stocks = array_sort compareScore stocks
                in Some \<lparr>data = Some sorted_stocks, error = None, success = True\<rparr>)
           | Inl error_message \<Rightarrow>
               Some \<lparr>data = None,
                     error = js_or (Some error_message) (Some ''Failed to screen stocks''),
                     success = False\<rparr>))"

definition aggregate :: "Gateway \<Rightarrow> string \<Rightarrow> StockWithScreening ApiResponse settled" where
  \<comment> \<open>\<open>this.getStockDetails(symbol)\<close> as a settled promise\<close>
  "aggregate gw symbol' = Fulfilled (getStockDetails gw symbol')"

section \<open>Chart path\<close>

record ChartData =
  dates :: "string list"
  prices :: "real list"
  sma50_chart :: "real list"
  sma100_chart :: "real list"
  sma200_chart :: "real list"

text \<open>
  \<open>Array.prototype.reverse\<close> reverses the array in place and returns it, and the
  properties of the object literal are evaluated in order: the three \<open>calculateSMA\<close>
  calls read the array \<open>prices\<close> after it was reversed. A response whose body has no
  \<open>values\<close> is usable but has no \<open>map\<close>: the call raises a TypeError and the promise
  rejects.
\<close>

definition getChartData :: "Gateway \<Rightarrow> string \<Rightarrow> ChartData ApiResponse settled" where
  "getChartData gw symbol' =
     (let timeSeriesResponse = getStockTimeSeries gw symbol' ''1day'' 200;
          failed = Fulfilled \<lparr>data = None, error = Some ''Failed to get chart data'',
                              success = False\<rparr>
      in case data timeSeriesResponse of
           None \<Rightarrow> failed
         | Some h \<Rightarrow>
             if \<not> success timeSeriesResponse then failed
             else (case h of
                     Raw b \<Rightarrow> Rejected ''priceHistory.map is not a function''
                   | Bars priceHistory \<Rightarrow>
                       (let prices0 = map close priceHistory;
                            dates0 = map date priceHistory;
                            dates1 = rev dates0;
                            prices1 = rev prices0
                        in Fulfilled
                             \<lparr>data = Some \<lparr>dates = dates1,
                                            prices = prices1,
                                            sma50_chart = calculateSMA prices1 50,
                                            sma100_chart = calculateSMA prices1 100,
                                            sma200_chart = calculateSMA prices1 200\<rparr>,
                              error = None, success = True\<rparr>)))"

section \<open>Notions of the specification\<close>

text \<open>
  The last element of the series that \<open>calculateSMA\<close> returns for the closes of
  some bars, taken in the order in which the bars are given.
\<close>

definition last_sma :: "PriceHistory list \<Rightarrow> nat \<Rightarrow> real" where
  "last_sma bars p = last (calculateSMA (map close bars) p)"

text \<open>
  The pass/fail rule in the specification's words, for a history in chronological order
  (oldest bar first, as the specification's normalised PriceHistory is): the current price
  and the most recent SMA50 and SMA100 values each lie strictly above the most recent
  SMA200 value. Over a chronological history the most recent value of an indicator is the
  last element of its series. A history that the upstream delivered most recent first has
  to be reversed before the rule is applied to it.
\<close>

definition passes_rule :: "real \<Rightarrow> PriceHistory list \<Rightarrow> bool" where
  "passes_rule currentPrice chronological =
     (currentPrice > last_sma chronological 200
      \<and> last_sma chronological 50 > last_sma chronological 200
      \<and> last_sma chronological 100 > last_sma chronological 200)"


text \<open>
  The failures the service itself recognises: the request throws, or resolves with a
  falsy body. What an endpoint delivered for a field, if it delivered its object.
\<close>

definition request_failed :: "'p axios \<Rightarrow> bool" where
  "request_failed r = (case r of Thrown e \<Rightarrow> True | Resolved b \<Rightarrow> \<not> truthy_body b)"

definition delivered :: "'p axios \<Rightarrow> ('p \<Rightarrow> 'v option) \<Rightarrow> 'v option" where
  "delivered r f = (case r of Thrown e \<Rightarrow> None | Resolved b \<Rightarrow> get_field b f)"

text \<open>
  The aggregation of a symbol failed: its promise rejected or its response is not usable.
  The callback's test of a stock; whether the callback raises on an outcome; what the
  callback adds to the array for an outcome.
\<close>

definition failed_outcome :: "'a ApiResponse settled \<Rightarrow> bool" where
  "failed_outcome r = (case r of Rejected reason \<Rightarrow> True | Fulfilled v \<Rightarrow> \<not> usable v)"

definition callback_keeps :: "StockWithScreening \<Rightarrow> PriceHistory list \<Rightarrow> bool" where
  \<comment> \<open>the callback's own test, on the bars as the stock holds them\<close>
  "callback_keeps stock bars =
     meetsScreening (or_zero (current_price stock))
       (last_elem (calculateSMA (map close bars) 50))
       (last_elem (calculateSMA (map close bars) 100))
       (last_elem (calculateSMA (map close bars) 200))"

definition raises :: "StockWithScreening ApiResponse settled \<Rightarrow> bool" where
  "raises r = (case screenCallback [] r of Inl e \<Rightarrow> True | Inr stocks \<Rightarrow> False)"

definition contribution :: "StockWithScreening ApiResponse settled \<Rightarrow> StockWithScreening list" where
  "contribution r = (case screenCallback [] r of Inl e \<Rightarrow> [] | Inr stocks \<Rightarrow> stocks)"

section \<open>Example inputs\<close>

text \<open>
  Daily bars with ISO ordinal dates (\<open>2024-DDD\<close>). \<open>falling_history\<close> is a series as
  the upstream delivers it, most recent bar first: days 200 down to 51 closed at 1, the
  older days 50 down to 1 closed at 3. \<open>flat_history\<close> has 200 bars closing at 1,
  \<open>short_history\<close> has 150. \<open>rising_history\<close> is in chronological order: days 1 to
  100 closed at 1, days 101 to 200 at 3; the upstream delivers it reversed.
\<close>

definition ordinal_date :: "nat \<Rightarrow> string" where
  "ordinal_date d =
     ''2024-'' @ [char_of (48 + d div 100), char_of (48 + d div 10 mod 10), char_of (48 + d mod 10)]"

definition example_bar :: "real \<Rightarrow> nat \<Rightarrow> PriceHistory" where
  "example_bar c d =
     \<lparr>date = ordinal_date d, open_bar = c, high = c, low = c, close = c, volume_bar = 1000\<rparr>"

definition falling_history :: "PriceHistory list" where
  "falling_history = map (example_bar 1) (rev [51..<201]) @ map (example_bar 3) (rev [1..<51])"

definition flat_history :: "PriceHistory list" where
  "flat_history = map (example_bar 1) (rev [1..<201])"

definition short_history :: "PriceHistory list" where
  "short_history = map (example_bar 3) (rev [1..<151])"

definition rising_history :: "PriceHistory list" where
  "rising_history = map (example_bar 1) [1..<101] @ map (example_bar 3) [101..<201]"

definition example_stock ::
  "string \<Rightarrow> real option \<Rightarrow> StockFundamentals option \<Rightarrow> history option \<Rightarrow> StockWithScreening" where
  "example_stock name percent fund hist =
     \<lparr>symbol = Some name, company_name = None, current_price = Some 2, price_change = None,
      price_change_percent = percent, volume = Some 2000000, high_52w = None, low_52w = None,
      screening_result = None, fundamentals = fund, price_history = hist\<rparr>"

definition large_cap :: StockFundamentals where
  "large_cap =
     \<lparr>market_cap = Some 20000000000, pe_ratio = None, price_to_book = None, eps = None,
      dividend_yield = None, beta = None, quarterly_revenue_growth = None,
      quarterly_eps_growth = None, estimated_sales_growth = None, estimated_eps_growth = None\<rparr>"

definition fulfilled_with :: "StockWithScreening \<Rightarrow> StockWithScreening ApiResponse settled" where
  "fulfilled_with stock = Fulfilled \<lparr>data = Some stock, error = None, success = True\<rparr>"

text \<open>
  A stock priced at 4 whose history is \<open>rising_history\<close>, held in chronological order
  and as the upstream delivers it.
\<close>

definition rising_stock :: "PriceHistory list \<Rightarrow> StockWithScreening" where
  "rising_stock bars =
     (example_stock ''NVDA'' None None (Some (Bars bars)))\<lparr>current_price := Some 4\<rparr>"

text \<open>
  A world in which the callback keeps two of the first ten symbols: AAPL with score 12.5
  and MSFT with score 30. GOOGL's promise rejects, AMZN's quote fails, TSLA has a short
  history, META a flat one, and every other aggregation rejects.
\<close>

definition example_details :: "string \<Rightarrow> StockWithScreening ApiResponse settled" where
  "example_details name =
     (if name = ''AAPL''
        then fulfilled_with (example_stock ''AAPL'' (Some 12.5) None (Some (Bars falling_history)))
      else if name = ''MSFT''
        then fulfilled_with (example_stock ''MSFT'' None (Some large_cap) (Some (Bars falling_history)))
      else if name = ''AMZN''
        then Fulfilled \<lparr>data = None, error = Some ''Network error'', success = False\<rparr>
      else if name = ''TSLA''
        then fulfilled_with (example_stock ''TSLA'' (Some 50) None (Some (Bars short_history)))
      else if name = ''META''
        then fulfilled_with (example_stock ''META'' (Some 50) None (Some (Bars flat_history)))
      else Rejected ''Network error'')"

definition example_completion :: "nat list" where
  "example_completion = [9, 3, 0, 7, 1, 8, 2, 6, 5, 4]"

text \<open>
  A gateway whose quote and time-series calls succeed (200 bars) while the profile,
  earnings and growth calls time out; one whose quote call times out; one in which the
  upstream answers every call with status 200 and an error report; and one whose
  time-series call is answered with a text of 512 characters.
\<close>

definition timeout_error :: axios_error where
  "timeout_error = \<lparr>response_data_message = None, message = Some ''timeout of 10000ms exceeded''\<rparr>"

definition example_quote :: quote_payload where
  "example_quote =
     \<lparr>quote_symbol = Some ''AAPL'', quote_name = Some ''Apple Inc'', quote_close = Some 2,
      quote_change = Some 0.25, quote_percent_change = Some 12.5, quote_volume = Some 2000000,
      quote_fifty_two_week_high = Some 3, quote_fifty_two_week_low = Some 1\<rparr>"

definition example_item :: "real \<Rightarrow> nat \<Rightarrow> time_series_item" where
  "example_item c d =
     \<lparr>item_datetime = ordinal_date d, item_open = c, item_high = c, item_low = c,
      item_close = c, item_volume = 1000\<rparr>"

definition example_gateway :: Gateway where
  "example_gateway =
     \<lparr>quote_endpoint = (\<lambda>s. Resolved (Object example_quote)),
      profile_endpoint = (\<lambda>s. Thrown timeout_error),
      earnings_endpoint = (\<lambda>s. Thrown timeout_error),
      growth_estimates_endpoint = (\<lambda>s. Thrown timeout_error),
      time_series_endpoint = (\<lambda>s interval outputsize.
         Resolved (Object \<lparr>payload_values = Some
           (map (example_item 1) (rev [51..<201]) @ map (example_item 3) (rev [1..<51]))\<rparr>))\<rparr>"




definition text_gateway :: Gateway where
  "text_gateway =
     example_gateway\<lparr>time_series_endpoint := (\<lambda>s interval outputsize. Resolved (Text 512))\<rparr>"

section \<open>Indicator engine: properties\<close>

lemma reduce_add_sum_list: "reduce_add xs = sum_list xs"
proof -
  have "foldl (\<lambda>a b. a + b) a xs = a + sum_list xs" for a :: real
    by (induction xs arbitrary: a) simp_all
  then show ?thesis by (simp add: reduce_add_def)
qed

lemma calculateSMA_loop_unfold:
  "calculateSMA_loop ps period i sma =
     sma @ map (\<lambda>j. reduce_add (slice (j + 1 - period) (j + 1) ps) / real period) [i..<length ps]"
proof (induction ps period i sma rule: calculateSMA_loop.induct)
  case (1 ps period i sma)
  show ?case
  proof (cases "i < length ps")
    case True
    then show ?thesis
      using "1.IH" by (subst calculateSMA_loop.simps) (simp add: upt_conv_Cons)
  next
    case False
    then show ?thesis by (subst calculateSMA_loop.simps) simp
  qed
qed

lemma calculateSMA_windows:
  assumes "0 < p"
  shows "calculateSMA s p = map (\<lambda>i. window_mean s i p) [0..<length s + 1 - p]"
proof (rule nth_equalityI)
  show "length (calculateSMA s p) = length (map (\<lambda>i. window_mean s i p) [0..<length s + 1 - p])"
    using assms by (simp add: calculateSMA_def calculateSMA_loop_unfold)
next
  fix i assume "i < length (calculateSMA s p)"
  then have i: "i < length s - (p - 1)"
    by (simp add: calculateSMA_def calculateSMA_loop_unfold)
  then have i': "i < length s + 1 - p" using assms by arith
  have "calculateSMA s p ! i = reduce_add (slice (p - 1 + i + 1 - p) (p - 1 + i + 1) s) / real p"
    using i by (simp add: calculateSMA_def calculateSMA_loop_unfold)
  also have "p - 1 + i + 1 - p = i" using assms by arith
  also have "p - 1 + i + 1 = i + p" using assms by arith
  finally show "calculateSMA s p ! i = map (\<lambda>i. window_mean s i p) [0..<length s + 1 - p] ! i"
    using i' by (simp add: window_mean_def slice_def reduce_add_sum_list)
qed

lemma calculateSMA_refines: "0 < p \<Longrightarrow> calculateSMA s p = simpleMovingAverage s p"
proof -
  assume p: "0 < p"
  have "length s < p \<Longrightarrow> length s + 1 - p = 0" by arith
  moreover have "\<not> length s < p \<Longrightarrow> length s + 1 - p = length s - p + 1" by arith
  ultimately show ?thesis
    using p by (simp add: calculateSMA_windows simpleMovingAverage_def del: upt_Suc)
qed

lemma calculateSMA_last:
  assumes "0 < p" "p \<le> length s"
  shows "calculateSMA s p \<noteq> []"
    and "last (calculateSMA s p) = sum_list (drop (length s - p) s) / real p"
proof -
  have n: "length s + 1 - p = Suc (length s - p)" using assms by arith
  have eq: "calculateSMA s p = map (\<lambda>i. window_mean s i p) [0..<Suc (length s - p)]"
    using calculateSMA_windows [OF assms(1), of s] unfolding n .
  show "calculateSMA s p \<noteq> []" unfolding eq by simp
  show "last (calculateSMA s p) = sum_list (drop (length s - p) s) / real p"
    unfolding eq using assms by (simp add: window_mean_def)
qed

lemma last_elem_calculateSMA:
  "0 < p \<Longrightarrow> p \<le> length s \<Longrightarrow>
     last_elem (calculateSMA s p) = Some (sum_list (drop (length s - p) s) / real p)"
  by (simp add: last_elem_def calculateSMA_last)

text \<open>
  C2. For a positive period \<open>p\<close>, \<open>calculateSMA\<close> is the specification's
  \<open>simpleMovingAverage\<close>: it returns the empty sequence when the series is shorter than
  \<open>p\<close>; otherwise it returns \<open>n - p + 1\<close> elements, the \<open>i\<close>-th being the arithmetic
  mean of \<open>s[i .. i+p-1]\<close>, so that the last one is the mean of the last \<open>p\<close>
  observations; \<open>[1,2,3,4,5]\<close> with period 3 gives \<open>[2,3,4]\<close>. The function is total:
  its loop terminates on every input and no step of it can raise.
\<close>

theorem calculateSMA_correct:
  "0 < p \<Longrightarrow>
     calculateSMA s p = simpleMovingAverage s p
     \<and> (length s < p \<longrightarrow> calculateSMA s p = [])
     \<and> (p \<le> length s \<longrightarrow>
          length (calculateSMA s p) = length s - p + 1
          \<and> (\<forall>i < length s - p + 1. calculateSMA s p ! i = sum_list (take p (drop i s)) / real p)
          \<and> last (calculateSMA s p) = sum_list (drop (length s - p) s) / real p)
     \<and> calculateSMA [1, 2, 3, 4, 5] 3 = [2, 3, 4]"
proof -
  assume p: "0 < p"
  have short: "length s < p \<longrightarrow> calculateSMA s p = []"
    using p by (simp add: calculateSMA_refines simpleMovingAverage_def)
  have long: "p \<le> length s \<longrightarrow>
          length (calculateSMA s p) = length s - p + 1
          \<and> (\<forall>i < length s - p + 1. calculateSMA s p ! i = sum_list (take p (drop i s)) / real p)
          \<and> last (calculateSMA s p) = sum_list (drop (length s - p) s) / real p"
  proof
    assume le: "p \<le> length s"
    then have n: "length s + 1 - p = length s - p + 1" by arith
    have eq: "calculateSMA s p = map (\<lambda>i. window_mean s i p) [0..<length s - p + 1]"
      using calculateSMA_windows [OF p, of s] unfolding n .
    have "length (calculateSMA s p) = length s - p + 1" unfolding eq by simp
    moreover have "\<forall>i < length s - p + 1. calculateSMA s p ! i = sum_list (take p (drop i s)) / real p"
      unfolding eq by (auto simp add: window_mean_def simp del: upt_Suc)
    moreover note calculateSMA_last(2) [OF p le]
    ultimately show "length (calculateSMA s p) = length s - p + 1
          \<and> (\<forall>i < length s - p + 1. calculateSMA s p ! i = sum_list (take p (drop i s)) / real p)
          \<and> last (calculateSMA s p) = sum_list (drop (length s - p) s) / real p"
      by blast
  qed
  have ex: "calculateSMA [1, 2, 3, 4, 5] 3 = [2, 3, 4]"
    by (simp add: calculateSMA_windows window_mean_def)
  from calculateSMA_refines [OF p] short long ex show ?thesis by blast
qed

theorem calculateSMA_correct_witness:
  "(0::nat) < 3 \<and> (3::nat) \<le> length [1, 2, 3, 4, 5 :: real]
   \<and> calculateSMA [1, 2, 3, 4, 5] 3 = [2, 3, 4]
   \<and> length (calculateSMA [1, 2, 3, 4, 5] 3) = 3
   \<and> last (calculateSMA [1, 2, 3, 4, 5] 3) = 4
   \<and> calculateSMA [1, 2] 3 = []"
proof -
  have p: "(0::nat) < 3" by simp
  have le: "(3::nat) \<le> length [1, 2, 3, 4, 5 :: real]" by simp
  from calculateSMA_correct [OF p, of "[1, 2, 3, 4, 5]"] le
  have ex: "calculateSMA [1, 2, 3, 4, 5] 3 = [2, 3, 4]"
    and len: "length (calculateSMA [1, 2, 3, 4, 5] 3) = length [1, 2, 3, 4, 5 :: real] - 3 + 1"
    and lst: "last (calculateSMA [1, 2, 3, 4, 5] 3)
                = sum_list (drop (length [1, 2, 3, 4, 5 :: real] - 3) [1, 2, 3, 4, 5]) / real 3"
    by blast+
  have "length [1, 2 :: real] < 3" by simp
  with calculateSMA_correct [OF p, of "[1, 2]"] have short: "calculateSMA [1, 2] 3 = []"
    by blast
  show ?thesis using p le ex len lst short by simp
qed

section \<open>Scoring rule: properties\<close>

lemma momentum_step:
  "(case x of None \<Rightarrow> s | Some pc \<Rightarrow> if pc \<noteq> 0 \<and> pc > 0 then s + pc * 0.2 else s)
     = s + momentum_term x"
  by (cases x) (simp_all add: momentum_term_def)

lemma liquidity_step:
  "(case x of None \<Rightarrow> s | Some v \<Rightarrow> if v \<noteq> 0 \<and> v > 1000000 then s + 10 else s)
     = s + liquidity_term x"
  by (cases x) (simp_all add: liquidity_term_def)

lemma valuation_step:
  "(case x of None \<Rightarrow> s
    | Some pe \<Rightarrow> if pe \<noteq> 0 then (if pe > 0 \<and> pe < 25 then s + (25 - pe) * 2 else s) else s)
     = s + valuation_term x"
  by (cases x) (simp_all add: valuation_term_def)

lemma growth_step:
  "(case x of None \<Rightarrow> s | Some g \<Rightarrow> if g \<noteq> 0 \<and> g > 0 then s + g * 0.3 else s)
     = s + growth_term x"
  by (cases x) (simp_all add: growth_term_def)

lemma scale_step:
  "(case x of None \<Rightarrow> s
    | Some marketCap \<Rightarrow>
        if marketCap \<noteq> 0
        then (if marketCap > 10000000000 then s + 20
              else if marketCap > 2000000000 then s + 10
              else s)
        else s)
     = s + scale_term x"
  by (cases x) (simp_all add: scale_term_def)

lemma terms_nonneg:
  "0 \<le> momentum_term x" "0 \<le> liquidity_term x" "0 \<le> valuation_term x"
  "0 \<le> growth_term x" "0 \<le> scale_term x"
  by (cases x; simp add: momentum_term_def liquidity_term_def valuation_term_def
        growth_term_def scale_term_def)+

lemma score_spec_nonneg: "0 \<le> score_spec stock"
  unfolding score_spec_def by (intro add_nonneg_nonneg terms_nonneg)

lemma calculateScore_max: "calculateScore stock = max 0 (score_spec stock)"
  unfolding calculateScore_def Let_def momentum_step liquidity_step valuation_step
    growth_step scale_step score_spec_def
  by simp

text \<open>
  C3. \<open>calculateScore\<close> returns exactly the sum of the five conditionally applied terms
  of the specification (momentum, liquidity, valuation, the two growth terms, scale); the
  result is never negative; a missing field makes its term 0; a stock all of whose
  optional fields are absent scores exactly 0.
\<close>

theorem calculateScore_correct:
  "calculateScore stock = score_spec stock
   \<and> 0 \<le> calculateScore stock
   \<and> momentum_term None = 0 \<and> liquidity_term None = 0 \<and> valuation_term None = 0
   \<and> growth_term None = 0 \<and> scale_term None = 0
   \<and> calculateScore \<lparr>symbol = sy, company_name = nm, current_price = None, price_change = None,
        price_change_percent = None, volume = None, high_52w = None, low_52w = None,
        screening_result = None, fundamentals = None, price_history = None\<rparr> = 0"
proof -
  have eq: "calculateScore s = score_spec s" for s
    using score_spec_nonneg [of s] by (simp add: calculateScore_max)
  have none: "momentum_term None = 0 \<and> liquidity_term None = 0 \<and> valuation_term None = 0
      \<and> growth_term None = 0 \<and> scale_term None = 0"
    by (simp add: momentum_term_def liquidity_term_def valuation_term_def growth_term_def
        scale_term_def)
  have absent: "score_spec \<lparr>symbol = sy, company_name = nm, current_price = None, price_change = None,
        price_change_percent = None, volume = None, high_52w = None, low_52w = None,
        screening_result = None, fundamentals = None, price_history = None\<rparr> = 0"
    by (simp add: score_spec_def none)
  show ?thesis
    unfolding eq using score_spec_nonneg [of stock] none absent by blast
qed

section \<open>Result cache: properties\<close>

text \<open>
  C9. With a working storage, a value stored under a key at time \<open>t\<close> is returned by
  every read of that key at a time strictly before \<open>t + TTL\<close>, and a read at or after
  \<open>t + TTL\<close> is a miss, where TTL is \<open>CACHE_DURATION\<close>, five minutes; in particular
  the read one millisecond before \<open>t + TTL\<close> hits and the read one millisecond after it
  misses.
\<close>

theorem cache_ttl:
  "available st \<Longrightarrow>
     CACHE_DURATION = 5 * 60 * 1000
     \<and> getCachedData (setCachedData st t key v) now key
         = (if now - t < CACHE_DURATION then Some v else None)
     \<and> (now < t + CACHE_DURATION \<longrightarrow> getCachedData (setCachedData st t key v) now key = Some v)
     \<and> (t + CACHE_DURATION \<le> now \<longrightarrow> getCachedData (setCachedData st t key v) now key = None)
     \<and> getCachedData (setCachedData st t key v) (t + CACHE_DURATION - 1) key = Some v
     \<and> getCachedData (setCachedData st t key v) (t + CACHE_DURATION + 1) key = None"
  by (simp add: getCachedData_def setCachedData_def CACHE_DURATION_def)

theorem cache_ttl_witness:
  "available \<lparr>items = (\<lambda>k. None), available = True\<rparr>
   \<and> getCachedData
        (setCachedData \<lparr>items = (\<lambda>k. None), available = True\<rparr> 1000 ''market_movers'' (42::nat))
        300999 ''market_movers'' = Some 42
   \<and> getCachedData
        (setCachedData \<lparr>items = (\<lambda>k. None), available = True\<rparr> 1000 ''market_movers'' (42::nat))
        301001 ''market_movers'' = None"
proof -
  have a: "available \<lparr>items = (\<lambda>k. None), available = True\<rparr>" by simp
  from cache_ttl [OF a, of 1000 "''market_movers''" "42::nat" 0]
  show ?thesis by (simp add: CACHE_DURATION_def)
qed

section \<open>Batch screening: properties\<close>

lemma those_map_Some: "those (map Some xs) = Some xs"
  by (induction xs) simp_all

lemma fold_slots_length:
  "length (fold (\<lambda>i slots. if i < length slots then slots[i := Some (ps ! i)] else slots) c vs)
     = length vs"
  by (induction c arbitrary: vs) simp_all

lemma fold_slots_nth:
  "j < length vs \<Longrightarrow>
     fold (\<lambda>i slots. if i < length slots then slots[i := Some (ps ! i)] else slots) c vs ! j
       = (if j \<in> set c then Some (ps ! j) else vs ! j)"
proof (induction c arbitrary: vs)
  case Nil
  then show ?case by simp
next
  case (Cons i c)
  show ?case
  proof (cases "i < length vs")
    case True
    with Cons.prems Cons.IH [of "vs[i := Some (ps ! i)]"] show ?thesis
      by (auto simp add: nth_list_update)
  next
    case False
    with Cons.prems Cons.IH [of vs] show ?thesis by auto
  qed
qed

lemma allSettled_covered:
  assumes "{..<length ps} \<subseteq> set c"
  shows "allSettled ps c = Some ps"
proof -
  let ?f = "\<lambda>i slots. if i < length slots then slots[i := Some (ps ! i)] else slots"
  have "fold ?f c (replicate (length ps) None) = map Some ps"
  proof (rule nth_equalityI)
    show "length (fold ?f c (replicate (length ps) None)) = length (map Some ps)"
      by (simp add: fold_slots_length)
  next
    fix j assume "j < length (fold ?f c (replicate (length ps) None))"
    then have j: "j < length ps" by (simp add: fold_slots_length)
    then have "j \<in> set c" using assms by auto
    with j show "fold ?f c (replicate (length ps) None) ! j = map Some ps ! j"
      by (simp add: fold_slots_nth)
  qed
  then show ?thesis by (simp add: allSettled_def those_map_Some)
qed

lemma screenCallback_split:
  "screenCallback acc r = (if raises r then Inl not_a_function else Inr (acc @ contribution r))"
  by (simp add: screenCallback_def raises_def contribution_def Let_def
      split: settled.splits option.splits history.splits)

lemma foldl_screenCallback:
  "foldl (\<lambda>acc result. case acc of Inl e \<Rightarrow> Inl e | Inr stocks \<Rightarrow> screenCallback stocks result)
     (Inr acc) rs
   = (if \<exists>r \<in> set rs. raises r then Inl not_a_function
      else Inr (acc @ concat (map contribution rs)))"
proof (induction rs arbitrary: acc)
  case Nil
  show ?case by simp
next
  case (Cons r rs)
  have stuck: "foldl (\<lambda>acc result. case acc of Inl e \<Rightarrow> Inl e
                        | Inr stocks \<Rightarrow> screenCallback stocks result) (Inl e) xs = Inl e"
    for e and xs :: "StockWithScreening ApiResponse settled list"
    by (induction xs) simp_all
  show ?case
  proof (cases "raises r")
    case True
    then show ?thesis by (simp add: screenCallback_split stuck)
  next
    case False
    then show ?thesis by (simp add: screenCallback_split Cons.IH)
  qed
qed

lemma forEach_result_eq:
  "forEach_result rs = (if \<exists>r \<in> set rs. raises r then Inl not_a_function
                         else Inr (concat (map contribution rs)))"
  unfolding forEach_result_def by (simp only: foldl_screenCallback append_Nil)

lemma insert_sorted_insort_key:
  "insert_sorted compareScore x ys = insort_key (\<lambda>s. - score_or_0 s) x ys"
  by (induction ys) (simp_all add: compareScore_def)

lemma array_sort_sort_key:
  "array_sort compareScore xs = sort_key (\<lambda>s. - score_or_0 s) xs"
proof -
  have "insert_sorted compareScore = insort_key (\<lambda>s. - score_or_0 s)"
    by (intro ext) (rule insert_sorted_insort_key)
  then show ?thesis by (simp add: array_sort_def sort_key_def)
qed



lemma first_ten: "slice 0 10 symbols =
  [''AAPL'', ''MSFT'', ''GOOGL'', ''AMZN'', ''TSLA'', ''META'', ''NVDA'', ''NFLX'', ''CRM'', ''ADBE'']"
  by (simp add: symbols_def slice_def)

lemma screenStocks_eq:
  assumes "{..<10} \<subseteq> set completion"
  shows "screenStocks details completion =
    Some (if \<exists>s \<in> set (slice 0 10 symbols). raises (details s)
          then \<lparr>data = None, error = Some not_a_function, success = False\<rparr>
          else \<lparr>data = Some (sort_key (\<lambda>s. - score_or_0 s)
                                (concat (map (\<lambda>s. contribution (details s)) (slice 0 10 symbols)))),
                error = None, success = True\<rparr>)"
proof -
  have "length (map details (slice 0 10 symbols)) = 10" by (simp add: first_ten)
  with assms have "allSettled (map details (slice 0 10 symbols)) completion
      = Some (map details (slice 0 10 symbols))"
    by (intro allSettled_covered) simp
  moreover have "js_or (Some not_a_function) (Some ''Failed to screen stocks'') = Some not_a_function"
    by (simp add: js_or_def not_a_function_def)
  ultimately show ?thesis
    by (simp add: screenStocks_def Let_def forEach_result_eq o_def array_sort_sort_key
        del: upt_rec_numeral)
qed

lemma last_elem_sma:
  "0 < p \<Longrightarrow> p \<le> length bars \<Longrightarrow>
     last_elem (calculateSMA (map close bars) p) = Some (last_sma bars p)"
  using calculateSMA_last(1) [of p "map close bars"] by (simp add: last_elem_def last_sma_def)

lemma last_sma_mean:
  "0 < p \<Longrightarrow> p \<le> length bars \<Longrightarrow>
     last_sma bars p = sum_list (drop (length bars - p) (map close bars)) / real p"
  using calculateSMA_last(2) [of p "map close bars"] by (simp add: last_sma_def)

lemma meetsScreening_Some:
  "meetsScreening cp (Some a) (Some b) (Some c) = (cp > c \<and> a > c \<and> b > c)"
  by (simp add: meetsScreening_def js_gt_def)

text \<open>
  The callback compares the last elements of the series over the bars in the order in
  which the stock holds them.
\<close>

lemma callback_keeps_eq:
  "200 \<le> length bars \<Longrightarrow>
     callback_keeps stock bars
       = (or_zero (current_price stock) > last_sma bars 200
          \<and> last_sma bars 50 > last_sma bars 200
          \<and> last_sma bars 100 > last_sma bars 200)"
  by (simp add: callback_keeps_def last_elem_sma meetsScreening_Some)

lemma screenCallback_bars:
  assumes "data v = Some stock" "success v" "price_history stock = Some (Bars bars)"
    and "200 \<le> length bars"
  shows "screenCallback acc (Fulfilled v) =
     Inr (if callback_keeps stock bars
          then acc @ [screened stock (or_zero (current_price stock)) (last_sma bars 50)
                        (last_sma bars 100) (last_sma bars 200) (calculateScore stock)]
          else acc)"
proof -
  have l: "last_elem (calculateSMA (map close bars) 200) = Some (last_sma bars 200)"
    "last_elem (calculateSMA (map close bars) 50) = Some (last_sma bars 50)"
    "last_elem (calculateSMA (map close bars) 100) = Some (last_sma bars 100)"
    using assms(4) by (simp_all add: last_elem_sma)
  show ?thesis
    using assms
    by (simp add: screenCallback_def callback_keeps_def Let_def l meetsScreening_Some
        screened_def js_gt_def)
qed

lemma contribution_bars:
  assumes "data v = Some stock" "success v" "price_history stock = Some (Bars bars)"
    and "200 \<le> length bars"
  shows "contribution (Fulfilled v) =
     (if callback_keeps stock bars
      then [screened stock (or_zero (current_price stock)) (last_sma bars 50)
              (last_sma bars 100) (last_sma bars 200) (calculateScore stock)]
      else [])"
    and "\<not> raises (Fulfilled v)"
  by (simp_all add: contribution_def raises_def screenCallback_bars [OF assms])

lemma contribution_no_bars:
  assumes "\<not> (\<exists>v stock bars. r = Fulfilled v \<and> data v = Some stock \<and> success v
              \<and> price_history stock = Some (Bars bars) \<and> 200 \<le> length bars)"
  shows "contribution r = []"
  using assms
  by (auto simp add: contribution_def screenCallback_def Let_def
      split: settled.splits option.splits history.splits)

lemma contribution_failed: "failed_outcome r \<Longrightarrow> contribution r = [] \<and> \<not> raises r"
  by (auto simp add: failed_outcome_def usable_def contribution_def raises_def screenCallback_def
      split: settled.splits option.splits)

lemma raises_iff:
  "raises r \<longleftrightarrow> (\<exists>v stock n. r = Fulfilled v \<and> success v \<and> data v = Some stock
       \<and> price_history stock = Some (Raw (Text n)) \<and> 200 \<le> n)"
  by (auto simp add: raises_def screenCallback_def body_length_def Let_def
      split: settled.splits option.splits history.splits body.splits)

lemma contribution_elem:
  assumes "out \<in> set (contribution r)"
  shows "\<exists>v stock bars. r = Fulfilled v \<and> data v = Some stock \<and> success v
           \<and> price_history stock = Some (Bars bars) \<and> 200 \<le> length bars
           \<and> callback_keeps stock bars
           \<and> out = screened stock (or_zero (current_price stock)) (last_sma bars 50)
                     (last_sma bars 100) (last_sma bars 200) (calculateScore stock)"
proof (cases "\<exists>v stock bars. r = Fulfilled v \<and> data v = Some stock \<and> success v
              \<and> price_history stock = Some (Bars bars) \<and> 200 \<le> length bars")
  case True
  then obtain v stock bars where h: "r = Fulfilled v" "data v = Some stock" "success v"
    "price_history stock = Some (Bars bars)" "200 \<le> length bars" by blast
  from assms contribution_bars(1) [OF h(2-5)] h(1)
  have "callback_keeps stock bars
       \<and> out = screened stock (or_zero (current_price stock)) (last_sma bars 50)
                     (last_sma bars 100) (last_sma bars 200) (calculateScore stock)"
    by (simp split: if_splits)
  with h show ?thesis by blast
next
  case False
  from contribution_no_bars [OF False] assms show ?thesis by simp
qed

lemma length_contribution: "length (contribution r) \<le> (if failed_outcome r then 0 else 1)"
  by (simp add: contribution_def screenCallback_def failed_outcome_def usable_def Let_def
      split: settled.splits option.splits history.splits)

lemma length_contributions:
  "length (concat (map (\<lambda>s. contribution (details s)) xs))
     \<le> length (filter (\<lambda>s. \<not> failed_outcome (details s)) xs)"
proof (induction xs)
  case Nil
  show ?case by simp
next
  case (Cons a xs)
  with length_contribution [of "details a"] show ?case
    by (simp split: if_splits)
qed

lemma calculateScore_screening_result:
  "calculateScore (stock\<lparr>screening_result := x\<rparr>) = calculateScore stock"
  by (simp add: calculateScore_def)

lemma score_or_0_screened: "score_or_0 (screened stock cp a b c sc) = sc"
  by (simp add: score_or_0_def screened_def or_zero_def)

lemma screened_fields:
  "price_history (screened stock cp a b c sc) = price_history stock"
  "current_price (screened stock cp a b c sc) = current_price stock"
  "screening_result (screened stock cp a b c sc) =
     Some \<lparr>price_above_sma200 = True, sma50_above_sma200 = True, sma100_above_sma200 = True,
        current_price_result = cp, sma50 = Some a, sma100 = Some b, sma200 = Some c,
        passes_all_criteria = True, meets_all_criteria = True, score = sc\<rparr>"
  "calculateScore (screened stock cp a b c sc) = calculateScore stock"
  by (simp_all add: screened_def calculateScore_screening_result)

lemma closes_example_bars: "map close (map (example_bar c) ds) = replicate (length ds) c"
  by (simp add: example_bar_def o_def map_replicate_const)

lemma upt_lengths:
  "length (rev [51..<201]) = 150" "length (rev [1..<51]) = 50" "length (rev [1..<201]) = 200"
  "length (rev [1..<151]) = 150" "length [1..<101] = 100" "length [101..<201] = 100"
  by (simp_all only: length_rev length_upt)

lemma closes_falling: "map close falling_history = replicate 150 1 @ replicate 50 3"
  unfolding falling_history_def map_append closes_example_bars upt_lengths ..

lemma closes_flat: "map close flat_history = replicate 200 1"
  unfolding flat_history_def closes_example_bars upt_lengths ..

lemma closes_rising: "map close rising_history = replicate 100 1 @ replicate 100 3"
  unfolding rising_history_def map_append closes_example_bars upt_lengths ..

lemma closes_rev_falling: "map close (rev falling_history) = replicate 50 3 @ replicate 150 1"
  by (simp only: rev_map [symmetric] closes_falling rev_append rev_replicate)

lemma closes_rev_rising: "map close (rev rising_history) = replicate 100 3 @ replicate 100 1"
  by (simp only: rev_map [symmetric] closes_rising rev_append rev_replicate)

lemma length_histories:
  "length falling_history = 200" "length flat_history = 200" "length short_history = 150"
  "length rising_history = 200"
  unfolding falling_history_def flat_history_def short_history_def rising_history_def
    length_append length_map upt_lengths by simp_all

lemma last_sma_falling:
  "last_sma falling_history 200 = 3 / 2" "last_sma falling_history 50 = 3"
  "last_sma falling_history 100 = 2"
  by (simp_all add: last_sma_mean length_histories closes_falling sum_list_replicate)

lemma last_sma_flat:
  "last_sma flat_history 200 = 1" "last_sma flat_history 50 = 1" "last_sma flat_history 100 = 1"
  by (simp_all add: last_sma_mean length_histories closes_flat sum_list_replicate)

lemma last_sma_rev_falling:
  "last_sma (rev falling_history) 200 = 3 / 2" "last_sma (rev falling_history) 50 = 1"
  "last_sma (rev falling_history) 100 = 1"
  by (simp_all add: last_sma_mean length_histories closes_rev_falling sum_list_replicate)

lemma last_sma_rising:
  "last_sma rising_history 200 = 2" "last_sma rising_history 50 = 3"
  "last_sma rising_history 100 = 3"
  by (simp_all add: last_sma_mean length_histories closes_rising sum_list_replicate)

lemma last_sma_rev_rising:
  "last_sma (rev rising_history) 200 = 2" "last_sma (rev rising_history) 50 = 1"
  "last_sma (rev rising_history) 100 = 1"
  by (simp_all add: last_sma_mean length_histories closes_rev_rising sum_list_replicate)

lemma example_scores:
  "calculateScore (example_stock ''AAPL'' (Some (25 / 2)) None h) = 25 / 2"
  "calculateScore (example_stock ''MSFT'' None (Some large_cap) h) = 30"
  by (simp_all add: calculateScore_def example_stock_def large_cap_def)

lemma example_details_simps:
  "example_details ''AAPL'' =
     fulfilled_with (example_stock ''AAPL'' (Some 12.5) None (Some (Bars falling_history)))"
  "example_details ''MSFT'' =
     fulfilled_with (example_stock ''MSFT'' None (Some large_cap) (Some (Bars falling_history)))"
  "example_details ''GOOGL'' = Rejected ''Network error''"
  "example_details ''AMZN'' = Fulfilled \<lparr>data = None, error = Some ''Network error'', success = False\<rparr>"
  "example_details ''TSLA'' =
     fulfilled_with (example_stock ''TSLA'' (Some 50) None (Some (Bars short_history)))"
  "example_details ''META'' =
     fulfilled_with (example_stock ''META'' (Some 50) None (Some (Bars flat_history)))"
  "example_details ''NVDA'' = Rejected ''Network error''"
  "example_details ''NFLX'' = Rejected ''Network error''"
  "example_details ''CRM'' = Rejected ''Network error''"
  "example_details ''ADBE'' = Rejected ''Network error''"
  by (simp_all add: example_details_def)

lemma example_stock_price: "or_zero (current_price (example_stock n p f h)) = 2"
  by (simp add: example_stock_def or_zero_def)

lemma example_stock_history: "price_history (example_stock n p f h) = h"
  by (simp add: example_stock_def)

lemma keeps_falling: "callback_keeps (example_stock n p f h) falling_history"
  by (simp add: callback_keeps_eq length_histories example_stock_price last_sma_falling)

lemma drops_flat: "\<not> callback_keeps (example_stock n p f h) flat_history"
  by (simp add: callback_keeps_eq length_histories example_stock_price last_sma_flat)

lemma contribution_fulfilled_with:
  assumes "price_history stock = Some (Bars bars)" and "200 \<le> length bars"
  shows "contribution (fulfilled_with stock) =
     (if callback_keeps stock bars
      then [screened stock (or_zero (current_price stock)) (last_sma bars 50) (last_sma bars 100)
              (last_sma bars 200) (calculateScore stock)]
      else [])"
    and "\<not> raises (fulfilled_with stock)"
proof -
  have a: "data \<lparr>data = Some stock, error = None, success = True\<rparr> = Some stock"
    "success \<lparr>data = Some stock, error = None, success = True\<rparr>" by simp_all
  show "contribution (fulfilled_with stock) =
     (if callback_keeps stock bars
      then [screened stock (or_zero (current_price stock)) (last_sma bars 50) (last_sma bars 100)
              (last_sma bars 200) (calculateScore stock)]
      else [])"
    unfolding fulfilled_with_def contribution_bars(1) [OF a assms]
    by (rule refl)
  show "\<not> raises (fulfilled_with stock)"
    unfolding fulfilled_with_def by (rule contribution_bars(2) [OF a assms])
qed

lemma example_contributions:
  "contribution (example_details ''AAPL'') =
     [screened (example_stock ''AAPL'' (Some 12.5) None (Some (Bars falling_history)))
        2 3 2 (3 / 2) 12.5]"
  "contribution (example_details ''MSFT'') =
     [screened (example_stock ''MSFT'' None (Some large_cap) (Some (Bars falling_history)))
        2 3 2 (3 / 2) 30]"
  "contribution (example_details ''GOOGL'') = []"
  "contribution (example_details ''AMZN'') = []"
  "contribution (example_details ''TSLA'') = []"
  "contribution (example_details ''META'') = []"
  "contribution (example_details ''NVDA'') = []"
  "contribution (example_details ''NFLX'') = []"
  "contribution (example_details ''CRM'') = []"
  "contribution (example_details ''ADBE'') = []"
proof -
  show "contribution (example_details ''AAPL'') =
     [screened (example_stock ''AAPL'' (Some 12.5) None (Some (Bars falling_history)))
        2 3 2 (3 / 2) 12.5]"
    unfolding example_details_simps
    by (subst contribution_fulfilled_with(1) [where bars = falling_history])
       (simp_all add: example_stock_history example_stock_price length_histories keeps_falling
          last_sma_falling example_scores)
  show "contribution (example_details ''MSFT'') =
     [screened (example_stock ''MSFT'' None (Some large_cap) (Some (Bars falling_history)))
        2 3 2 (3 / 2) 30]"
    unfolding example_details_simps
    by (subst contribution_fulfilled_with(1) [where bars = falling_history])
       (simp_all add: example_stock_history example_stock_price length_histories keeps_falling
          last_sma_falling example_scores)
  show "contribution (example_details ''META'') = []"
    unfolding example_details_simps
    by (subst contribution_fulfilled_with(1) [where bars = flat_history])
       (simp_all add: example_stock_history example_stock_price length_histories drops_flat)
  show "contribution (example_details ''TSLA'') = []"
    unfolding example_details_simps fulfilled_with_def
    by (rule contribution_no_bars) (auto simp add: example_stock_history length_histories)
  show "contribution (example_details ''GOOGL'') = []"
    "contribution (example_details ''AMZN'') = []"
    "contribution (example_details ''NVDA'') = []"
    "contribution (example_details ''NFLX'') = []"
    "contribution (example_details ''CRM'') = []"
    "contribution (example_details ''ADBE'') = []"
    unfolding example_details_simps
    by (simp_all add: contribution_failed failed_outcome_def usable_def)
qed

lemma example_raises:
  "s \<in> set (slice 0 10 symbols) \<Longrightarrow> \<not> raises (example_details s)"
  by (auto simp add: raises_iff example_details_def fulfilled_with_def example_stock_def)

lemma example_completion_covers: "{..<10} \<subseteq> set example_completion"
proof
  fix x :: nat assume "x \<in> {..<10}"
  then have "x < 10" by simp
  then have "x = 0 \<or> x = 1 \<or> x = 2 \<or> x = 3 \<or> x = 4 \<or> x = 5 \<or> x = 6 \<or> x = 7 \<or> x = 8 \<or> x = 9"
    by arith
  then show "x \<in> set example_completion" by (auto simp add: example_completion_def)
qed

lemma example_screen:
  "screenStocks example_details example_completion =
     Some \<lparr>data = Some
             [screened (example_stock ''MSFT'' None (Some large_cap) (Some (Bars falling_history)))
                2 3 2 (3 / 2) 30,
              screened (example_stock ''AAPL'' (Some 12.5) None (Some (Bars falling_history)))
                2 3 2 (3 / 2) 12.5],
           error = None, success = True\<rparr>"
proof -
  have "\<not> (\<exists>s \<in> set (slice 0 10 symbols). raises (example_details s))"
    using example_raises by blast
  then show ?thesis
    unfolding screenStocks_eq [OF example_completion_covers] first_ten
    by (simp add: example_contributions score_or_0_screened)
qed

lemma screenStocks_cases:
  assumes "{..<10} \<subseteq> set completion"
  obtains (raised) "\<exists>s \<in> set (slice 0 10 symbols). raises (details s)"
      "screenStocks details completion
         = Some \<lparr>data = None, error = Some not_a_function, success = False\<rparr>"
  | (listed) stocks where "\<forall>s \<in> set (slice 0 10 symbols). \<not> raises (details s)"
      "screenStocks details completion
         = Some \<lparr>data = Some stocks, error = None, success = True\<rparr>"
      "stocks = sort_key (\<lambda>s. - score_or_0 s)
                  (concat (map (\<lambda>s. contribution (details s)) (slice 0 10 symbols)))"
      "set stocks = (\<Union>s \<in> set (slice 0 10 symbols). set (contribution (details s)))"
proof (cases "\<exists>s \<in> set (slice 0 10 symbols). raises (details s)")
  case True
  with screenStocks_eq [OF assms, of details] raised show thesis by simp
next
  case False
  let ?pushed = "concat (map (\<lambda>s. contribution (details s)) (slice 0 10 symbols))"
  have "set (sort_key (\<lambda>s. - score_or_0 s) ?pushed)
      = (\<Union>s \<in> set (slice 0 10 symbols). set (contribution (details s)))"
    by (simp del: upt_Suc)
  with False screenStocks_eq [OF assms, of details] listed show thesis by simp
qed

text \<open>
  The \<open>catch\<close> branch is reached: one symbol whose time-series body is a text of 512
  characters makes the whole batch fail.
\<close>

lemma text_body_fails_batch:
  "screenStocks
     (example_details(''NVDA'' := fulfilled_with (example_stock ''NVDA'' None None (Some (Raw (Text 512))))))
     example_completion
   = Some \<lparr>data = None, error = Some ''stock.price_history.map is not a function'',
           success = False\<rparr>"
proof -
  have "raises (fulfilled_with (example_stock ''NVDA'' None None (Some (Raw (Text 512)))))"
    by (simp add: raises_iff fulfilled_with_def example_stock_def)
  moreover have "''NVDA'' \<in> set (slice 0 10 symbols)" by (simp add: first_ten)
  ultimately have "\<exists>s \<in> set (slice 0 10 symbols).
      raises ((example_details(''NVDA'' := fulfilled_with
                (example_stock ''NVDA'' None None (Some (Raw (Text 512)))))) s)"
    by (intro bexI [where x = "''NVDA''"]) simp_all
  then show ?thesis
    unfolding screenStocks_eq [OF example_completion_covers]
    by (simp only: if_True not_a_function_def)
qed

text \<open>
  C8. Once the ten aggregations have settled, \<open>screenStocks\<close> returns a response, and
  unless the callback raises for one of the ten symbols the response is a success carrying
  a list. Every list it returns is sorted by score in descending order: every element's
  score is at least the score of each later element, in particular of the next one, where
  the score is the composite score \<open>calculateScore\<close> of the stock. The response does not
  depend on the order in which the ten aggregations settle, and stocks with equal scores
  keep the order of the universe (the sort is stable). In the example world, where exactly
  AAPL (12.5) and MSFT (30) pass, MSFT comes first.
\<close>

theorem screenStocks_sorted:
  assumes "{..<10} \<subseteq> set completion"
  shows "\<exists>r. screenStocks details completion = Some r
      \<and> ((\<forall>s \<in> set (slice 0 10 symbols). \<not> raises (details s)) \<longrightarrow>
            (\<exists>stocks. r = \<lparr>data = Some stocks, error = None, success = True\<rparr>))
      \<and> (\<forall>stocks. data r = Some stocks \<longrightarrow>
            sorted_wrt (\<lambda>a b. score_or_0 a \<ge> score_or_0 b) stocks
            \<and> (\<forall>i. Suc i < length stocks \<longrightarrow>
                  score_or_0 (stocks ! i) \<ge> score_or_0 (stocks ! Suc i))
            \<and> (\<forall>out \<in> set stocks. \<exists>res. screening_result out = Some res
                  \<and> score_or_0 out = score res \<and> score res = calculateScore out)
            \<and> (\<forall>k. filter (\<lambda>s. score_or_0 s = k) stocks
                    = filter (\<lambda>s. score_or_0 s = k)
                        (concat (map (\<lambda>s. contribution (details s)) (slice 0 10 symbols)))))
      \<and> (\<forall>completion'. {..<10} \<subseteq> set completion' \<longrightarrow>
             screenStocks details completion' = screenStocks details completion)"
proof -
  have det: "\<forall>completion'. {..<10} \<subseteq> set completion' \<longrightarrow>
             screenStocks details completion' = screenStocks details completion"
    using screenStocks_eq [of _ details] assms by simp
  from assms show ?thesis
  proof (cases rule: screenStocks_cases [where details = details])
    case raised
    with det show ?thesis by auto
  next
    case (listed stocks)
    let ?pushed = "concat (map (\<lambda>s. contribution (details s)) (slice 0 10 symbols))"
    note st = listed(3) and mem = listed(4)
    have "sorted (map (\<lambda>s. - score_or_0 s) stocks)" unfolding st by (rule sorted_sort_key)
    then have desc: "sorted_wrt (\<lambda>a b. score_or_0 a \<ge> score_or_0 b) stocks"
      by (simp add: sorted_map)
    have adj: "\<forall>i. Suc i < length stocks \<longrightarrow> score_or_0 (stocks ! i) \<ge> score_or_0 (stocks ! Suc i)"
      using desc by (simp add: sorted_wrt_iff_nth_less)
    have sc: "\<exists>res. screening_result out = Some res \<and> score_or_0 out = score res
               \<and> score res = calculateScore out" if "out \<in> set stocks" for out
    proof -
      from that mem obtain s where "out \<in> set (contribution (details s))" by auto
      from contribution_elem [OF this] show ?thesis
        by (auto simp add: screened_fields score_or_0_screened)
    qed
    have stable: "\<forall>k. filter (\<lambda>s. score_or_0 s = k) stocks
        = filter (\<lambda>s. score_or_0 s = k) ?pushed"
    proof
      fix k
      have "filter (\<lambda>s. - score_or_0 s = - k) (sort_key (\<lambda>s. - score_or_0 s) ?pushed)
          = filter (\<lambda>s. - score_or_0 s = - k) ?pushed"
        by (rule sort_key_stable)
      then show "filter (\<lambda>s. score_or_0 s = k) stocks = filter (\<lambda>s. score_or_0 s = k) ?pushed"
        by (simp add: st)
    qed
    from listed(2) desc adj sc stable det show ?thesis by auto
  qed
qed

theorem screenStocks_sorted_witness:
  "{..<10} \<subseteq> set example_completion
   \<and> {..<10} \<subseteq> set (rev example_completion)
   \<and> screenStocks example_details example_completion =
       Some \<lparr>data = Some
             [screened (example_stock ''MSFT'' None (Some large_cap) (Some (Bars falling_history)))
                2 3 2 (3 / 2) 30,
              screened (example_stock ''AAPL'' (Some 12.5) None (Some (Bars falling_history)))
                2 3 2 (3 / 2) 12.5],
           error = None, success = True\<rparr>
   \<and> screenStocks example_details (rev example_completion)
       = screenStocks example_details example_completion
   \<and> score_or_0 (screened (example_stock ''MSFT'' None (Some large_cap) (Some (Bars falling_history)))
                2 3 2 (3 / 2) 30) = 30
   \<and> score_or_0 (screened (example_stock ''AAPL'' (Some 12.5) None (Some (Bars falling_history)))
                2 3 2 (3 / 2) 12.5) = 12.5"
proof -
  note c = example_completion_covers
  have c': "{..<10} \<subseteq> set (rev example_completion)" using c by simp
  from screenStocks_sorted [OF c, of example_details] c'
  have "screenStocks example_details (rev example_completion)
       = screenStocks example_details example_completion"
    by blast
  with c c' example_screen show ?thesis by (simp add: score_or_0_screened)
qed



lemma in_order_covers: "{..<10} \<subseteq> set [0, 1, 2, 3, 4, 5, 6, 7, 8, 9 :: nat]"
proof
  fix x :: nat assume "x \<in> {..<10}"
  then have "x < 10" by simp
  then have "x = 0 \<or> x = 1 \<or> x = 2 \<or> x = 3 \<or> x = 4 \<or> x = 5 \<or> x = 6 \<or> x = 7 \<or> x = 8 \<or> x = 9"
    by arith
  then show "x \<in> set [0, 1, 2, 3, 4, 5, 6, 7, 8, 9]" by auto
qed

lemma rejected_failed: "failed_outcome (Rejected reason)"
  by (simp add: failed_outcome_def)

text \<open>
  C7 (as stated, fails). When every one of the ten aggregations fails, the caller does not
  get an explicit failure: the result is a success carrying the empty list and no message.
\<close>

theorem all_failed_counterexample:
  "screenStocks (\<lambda>s. Rejected ''Network error'') [0, 1, 2, 3, 4, 5, 6, 7, 8, 9]
     = Some \<lparr>data = Some [], error = None, success = True\<rparr>"
  unfolding screenStocks_eq [OF in_order_covers] first_ten
  by (simp add: contribution_failed [OF rejected_failed])

text \<open>
  C7 (amended). Once the ten aggregations have settled, \<open>screenStocks\<close> returns a
  response: nothing reaches the caller as an exception. A failed aggregation (a rejected
  promise or a response that is not usable) leaves the array of the callback as it is, and
  the response is the same whichever way the failed aggregations failed. A list that is
  returned is the sorted concatenation of what each symbol contributes on its own and is
  at most as long as the number of symbols that did not fail. Unless the callback raises
  for one of the ten symbols the response is a success carrying such a list; when every
  symbol failed it is the success carrying the empty list, not a failure.
\<close>

theorem screenStocks_failures_excluded:
  assumes "{..<10} \<subseteq> set completion"
  shows "\<exists>r. screenStocks details completion = Some r
      \<and> (\<forall>s stocks. failed_outcome (details s) \<longrightarrow>
            screenCallback stocks (details s) = Inr stocks)
      \<and> (\<forall>details'.
            (\<forall>s \<in> set (slice 0 10 symbols).
                details' s = details s \<or> failed_outcome (details s) \<and> failed_outcome (details' s))
            \<longrightarrow> screenStocks details' completion = Some r)
      \<and> (\<forall>stocks. data r = Some stocks \<longrightarrow>
            stocks = array_sort compareScore
                       (concat (map (\<lambda>s. contribution (details s)) (slice 0 10 symbols)))
            \<and> length stocks
                 \<le> length (filter (\<lambda>s. \<not> failed_outcome (details s)) (slice 0 10 symbols)))
      \<and> ((\<forall>s \<in> set (slice 0 10 symbols). \<not> raises (details s)) \<longrightarrow>
            (\<exists>stocks. r = \<lparr>data = Some stocks, error = None, success = True\<rparr>))
      \<and> ((\<forall>s \<in> set (slice 0 10 symbols). failed_outcome (details s)) \<longrightarrow>
            r = \<lparr>data = Some [], error = None, success = True\<rparr>)"
proof -
  let ?pushed = "\<lambda>d. concat (map (\<lambda>s. contribution (d s)) (slice 0 10 symbols))"
  have fail: "\<forall>s stocks. failed_outcome (details s) \<longrightarrow>
      screenCallback stocks (details s) = Inr stocks"
    by (simp add: screenCallback_split contribution_failed)
  have indep: "screenStocks details' completion = screenStocks details completion"
    if h: "\<forall>s \<in> set (slice 0 10 symbols).
            details' s = details s \<or> failed_outcome (details s) \<and> failed_outcome (details' s)"
    for details'
  proof -
    have same: "contribution (details' s) = contribution (details s)
        \<and> raises (details' s) = raises (details s)" if "s \<in> set (slice 0 10 symbols)" for s
    proof -
      from that h have "details' s = details s
          \<or> failed_outcome (details s) \<and> failed_outcome (details' s)" by blast
      then show ?thesis by (auto simp add: contribution_failed)
    qed
    have "map (\<lambda>s. contribution (details' s)) (slice 0 10 symbols)
        = map (\<lambda>s. contribution (details s)) (slice 0 10 symbols)"
      by (rule map_cong [OF refl]) (simp add: same)
    then have "?pushed details' = ?pushed details" by (simp only:)
    moreover have "(\<exists>s \<in> set (slice 0 10 symbols). raises (details' s))
        = (\<exists>s \<in> set (slice 0 10 symbols). raises (details s))"
      using same by blast
    ultimately show ?thesis
      unfolding screenStocks_eq [OF assms, of details] screenStocks_eq [OF assms, of details']
      by (simp only:)
  qed
  have len: "length (array_sort compareScore (?pushed details))
      \<le> length (filter (\<lambda>s. \<not> failed_outcome (details s)) (slice 0 10 symbols))"
    using length_contributions [of details "slice 0 10 symbols"]
    by (simp add: array_sort_sort_key)
  have indep': "\<forall>details'.
      (\<forall>s \<in> set (slice 0 10 symbols).
          details' s = details s \<or> failed_outcome (details s) \<and> failed_outcome (details' s))
      \<longrightarrow> screenStocks details' completion = screenStocks details completion"
    using indep by blast
  from assms show ?thesis
  proof (cases rule: screenStocks_cases [where details = details])
    case raised
    let ?r = "\<lparr>data = None, error = Some not_a_function, success = False\<rparr>
      :: StockWithScreening list ApiResponse"
    from raised(1) obtain s where s: "s \<in> set (slice 0 10 symbols)" "raises (details s)"
      by blast
    from s(2) contribution_failed [of "details s"] have "\<not> failed_outcome (details s)"
      by blast
    with s(1) have nf: "\<not> (\<forall>s \<in> set (slice 0 10 symbols). failed_outcome (details s))"
      by blast
    from raised(1) have nr: "\<not> (\<forall>s \<in> set (slice 0 10 symbols). \<not> raises (details s))"
      by blast
    show ?thesis
    proof (intro exI [where x = ?r] conjI)
      show "screenStocks details completion = Some ?r" by (rule raised(2))
      show "\<forall>s stocks. failed_outcome (details s) \<longrightarrow>
          screenCallback stocks (details s) = Inr stocks" by (rule fail)
      show "\<forall>details'.
          (\<forall>s \<in> set (slice 0 10 symbols).
              details' s = details s \<or> failed_outcome (details s) \<and> failed_outcome (details' s))
          \<longrightarrow> screenStocks details' completion = Some ?r"
        using indep' unfolding raised(2) .
      show "\<forall>stocks. data ?r = Some stocks \<longrightarrow>
          stocks = array_sort compareScore (?pushed details)
          \<and> length stocks
               \<le> length (filter (\<lambda>s. \<not> failed_outcome (details s)) (slice 0 10 symbols))"
        by simp
      show "(\<forall>s \<in> set (slice 0 10 symbols). \<not> raises (details s)) \<longrightarrow>
          (\<exists>stocks. ?r = \<lparr>data = Some stocks, error = None, success = True\<rparr>)"
        using nr by (simp only: simp_thms)
      show "(\<forall>s \<in> set (slice 0 10 symbols). failed_outcome (details s)) \<longrightarrow>
          ?r = \<lparr>data = Some [], error = None, success = True\<rparr>"
        using nf by (simp only: simp_thms)
    qed
  next
    case (listed stocks)
    let ?r = "\<lparr>data = Some stocks, error = None, success = True\<rparr>"
    have st: "stocks = array_sort compareScore (?pushed details)"
      by (simp only: listed(3) array_sort_sort_key)
    have all: "stocks = []" if "\<forall>s \<in> set (slice 0 10 symbols). failed_outcome (details s)"
    proof -
      from that have "filter (\<lambda>s. \<not> failed_outcome (details s)) (slice 0 10 symbols) = []"
        by (simp only: filter_empty_conv simp_thms)
      with len st show ?thesis by simp
    qed
    show ?thesis
    proof (intro exI [where x = ?r] conjI)
      show "screenStocks details completion = Some ?r" by (rule listed(2))
      show "\<forall>s stocks. failed_outcome (details s) \<longrightarrow>
          screenCallback stocks (details s) = Inr stocks" by (rule fail)
      show "\<forall>details'.
          (\<forall>s \<in> set (slice 0 10 symbols).
              details' s = details s \<or> failed_outcome (details s) \<and> failed_outcome (details' s))
          \<longrightarrow> screenStocks details' completion = Some ?r"
        using indep' unfolding listed(2) .
      show "\<forall>stocks'. data ?r = Some stocks' \<longrightarrow>
          stocks' = array_sort compareScore (?pushed details)
          \<and> length stocks'
               \<le> length (filter (\<lambda>s. \<not> failed_outcome (details s)) (slice 0 10 symbols))"
        using st len by simp
      show "(\<forall>s \<in> set (slice 0 10 symbols). \<not> raises (details s)) \<longrightarrow>
          (\<exists>stocks'. ?r = \<lparr>data = Some stocks', error = None, success = True\<rparr>)"
        by simp
      show "(\<forall>s \<in> set (slice 0 10 symbols). failed_outcome (details s)) \<longrightarrow>
          ?r = \<lparr>data = Some [], error = None, success = True\<rparr>"
        using all by simp
    qed
  qed
qed

theorem screenStocks_failures_excluded_witness:
  "{..<10} \<subseteq> set example_completion
   \<and> failed_outcome (example_details ''GOOGL'')
   \<and> failed_outcome (example_details ''AMZN'')
   \<and> screenCallback [] (example_details ''GOOGL'') = Inr []
   \<and> screenCallback [] (example_details ''AMZN'') = Inr []
   \<and> screenStocks example_details example_completion =
       Some \<lparr>data = Some
             [screened (example_stock ''MSFT'' None (Some large_cap) (Some (Bars falling_history)))
                2 3 2 (3 / 2) 30,
              screened (example_stock ''AAPL'' (Some 12.5) None (Some (Bars falling_history)))
                2 3 2 (3 / 2) 12.5],
           error = None, success = True\<rparr>"
proof -
  have f: "failed_outcome (example_details ''GOOGL'')" "failed_outcome (example_details ''AMZN'')"
    by (simp_all add: example_details_simps failed_outcome_def usable_def)
  from screenStocks_failures_excluded [OF example_completion_covers, of example_details]
  have "\<forall>s stocks. failed_outcome (example_details s) \<longrightarrow>
      screenCallback stocks (example_details s) = Inr stocks"
    by blast
  with f have "screenCallback [] (example_details ''GOOGL'') = Inr []"
    "screenCallback [] (example_details ''AMZN'') = Inr []"
    by blast+
  with f example_completion_covers example_screen show ?thesis by simp
qed

section \<open>Symbol aggregator: properties\<close>

lemma data_makeRequest:
  "data (makeRequest r) = (case r of Thrown e \<Rightarrow> None
                           | Resolved b \<Rightarrow> if truthy_body b then Some b else None)"
  by (simp add: makeRequest_def split: axios.splits)

lemma makeRequest_failed:
  "request_failed r \<Longrightarrow> data (makeRequest r) = None"
  by (cases r) (simp_all add: makeRequest_def request_failed_def)

lemma makeRequest_delivered:
  "\<not> request_failed r \<Longrightarrow> \<exists>b. r = Resolved b \<and> truthy_body b
      \<and> makeRequest r = \<lparr>data = Some b, error = None, success = True\<rparr>"
  by (cases r) (simp_all add: makeRequest_def request_failed_def)

lemma bind_makeRequest:
  "Option.bind (data (makeRequest r)) (\<lambda>d. get_field d f) = delivered r f"
  by (cases r) (auto simp add: data_makeRequest delivered_def get_field_def truthy_body_def
      split: body.splits)

lemma getStockQuote_failed:
  "request_failed (quote_endpoint gw s) \<Longrightarrow>
     getStockQuote gw s = pass_through (makeRequest (quote_endpoint gw s))"
  by (simp add: getStockQuote_def Let_def makeRequest_failed)

lemma getStockQuote_delivered:
  assumes "\<not> request_failed (quote_endpoint gw s)"
  shows "getStockQuote gw s =
     \<lparr>data = Some \<lparr>symbol = delivered (quote_endpoint gw s) quote_symbol,
                    company_name = delivered (quote_endpoint gw s) quote_name,
                    current_price = delivered (quote_endpoint gw s) quote_close,
                    price_change = delivered (quote_endpoint gw s) quote_change,
                    price_change_percent = delivered (quote_endpoint gw s) quote_percent_change,
                    volume = delivered (quote_endpoint gw s) quote_volume,
                    high_52w = delivered (quote_endpoint gw s) quote_fifty_two_week_high,
                    low_52w = delivered (quote_endpoint gw s) quote_fifty_two_week_low\<rparr>,
      error = None, success = True\<rparr>"
proof -
  from makeRequest_delivered [OF assms] obtain b where
    b: "quote_endpoint gw s = Resolved b"
      "makeRequest (quote_endpoint gw s) = \<lparr>data = Some b, error = None, success = True\<rparr>"
    by blast
  show ?thesis unfolding getStockQuote_def b(2) by (simp add: b(1) delivered_def)
qed

lemma getStockFundamentals_failed:
  "request_failed (profile_endpoint gw s) \<Longrightarrow> data (getStockFundamentals gw s) = None"
  by (simp add: getStockFundamentals_def Let_def makeRequest_failed pass_through_def)



lemma getStockTimeSeries_values:
  assumes "delivered (time_series_endpoint gw s i n) payload_values = Some vs"
  shows "getStockTimeSeries gw s i n =
     \<lparr>data = Some (Bars (map (\<lambda>item. \<lparr>date = item_datetime item, open_bar = item_open item,
                                        high = item_high item, low = item_low item,
                                        close = item_close item,
                                        volume_bar = item_volume item\<rparr>) vs)),
      error = None, success = True\<rparr>"
proof -
  from assms obtain p where p: "time_series_endpoint gw s i n = Resolved (Object p)"
    by (auto simp add: delivered_def get_field_def split: axios.splits body.splits)
  have "success (makeRequest (time_series_endpoint gw s i n))"
    by (simp add: p makeRequest_def)
  then show ?thesis
    unfolding getStockTimeSeries_def Let_def bind_makeRequest assms by simp
qed

lemma getStockTimeSeries_raw:
  assumes "time_series_endpoint gw s i n = Resolved b" "truthy_body b"
    "get_field b payload_values = None"
  shows "getStockTimeSeries gw s i n = \<lparr>data = Some (Raw b), error = None, success = True\<rparr>"
proof -
  have "delivered (time_series_endpoint gw s i n) payload_values = None"
    by (simp add: delivered_def assms)
  then show ?thesis
    unfolding getStockTimeSeries_def Let_def bind_makeRequest
    by (simp add: assms makeRequest_def)
qed

lemma getStockDetails_failed:
  assumes "request_failed (quote_endpoint gw s)"
  shows "getStockDetails gw s = pass_through (makeRequest (quote_endpoint gw s))"
  unfolding getStockDetails_def Let_def getStockQuote_failed [OF assms]
  by (simp add: pass_through_def)

lemma getStockDetails_delivered:
  assumes "\<not> request_failed (quote_endpoint gw s)"
  shows "getStockDetails gw s =
     \<lparr>data = Some \<lparr>symbol = delivered (quote_endpoint gw s) quote_symbol,
                    company_name = delivered (quote_endpoint gw s) quote_name,
                    current_price = delivered (quote_endpoint gw s) quote_close,
                    price_change = delivered (quote_endpoint gw s) quote_change,
                    price_change_percent = delivered (quote_endpoint gw s) quote_percent_change,
                    volume = delivered (quote_endpoint gw s) quote_volume,
                    high_52w = delivered (quote_endpoint gw s) quote_fifty_two_week_high,
                    low_52w = delivered (quote_endpoint gw s) quote_fifty_two_week_low,
                    screening_result = None,
                    fundamentals = data (getStockFundamentals gw s),
                    price_history = data (getStockTimeSeries gw s ''1day'' 200)\<rparr>,
      error = None, success = True\<rparr>"
  unfolding getStockDetails_def Let_def getStockQuote_delivered [OF assms] by simp

lemma getStockDetails_no_result:
  "data (getStockDetails gw s) = Some stock \<Longrightarrow> screening_result stock = None"
proof (cases "request_failed (quote_endpoint gw s)")
  case True
  assume "data (getStockDetails gw s) = Some stock"
  with getStockDetails_failed [OF True] show ?thesis by (simp add: pass_through_def)
next
  case False
  assume "data (getStockDetails gw s) = Some stock"
  with getStockDetails_delivered [OF False] show ?thesis by auto
qed



lemma timeSeries_example:
  "getStockTimeSeries example_gateway s interval outputsize
     = \<lparr>data = Some (Bars falling_history), error = None, success = True\<rparr>"
proof -
  have bar: "\<lparr>date = item_datetime (example_item c d), open_bar = item_open (example_item c d),
         high = item_high (example_item c d), low = item_low (example_item c d),
         close = item_close (example_item c d), volume_bar = item_volume (example_item c d)\<rparr>
        = example_bar c d" for c d
    by (simp add: example_item_def example_bar_def)
  have "delivered (time_series_endpoint example_gateway s interval outputsize) payload_values
      = Some (map (example_item 1) (rev [51..<201]) @ map (example_item 3) (rev [1..<51]))"
    by (simp add: example_gateway_def delivered_def get_field_def del: upt_rec_numeral)
  from getStockTimeSeries_values [OF this] show ?thesis
    unfolding falling_history_def by (simp add: bar del: upt_rec_numeral)
qed

lemma details_example:
  "getStockDetails example_gateway s =
     \<lparr>data = Some (example_stock ''AAPL'' (Some 12.5) None (Some (Bars falling_history))
                    \<lparr>company_name := Some ''Apple Inc'', price_change := Some 0.25,
                      high_52w := Some 3, low_52w := Some 1\<rparr>),
      error = None, success = True\<rparr>"
proof -
  have nf: "\<not> request_failed (quote_endpoint example_gateway s)"
    by (simp add: example_gateway_def request_failed_def truthy_body_def)
  have pf: "request_failed (profile_endpoint example_gateway s)"
    by (simp add: example_gateway_def request_failed_def)
  show ?thesis
    unfolding getStockDetails_delivered [OF nf] getStockFundamentals_failed [OF pf]
      timeSeries_example
    by (simp add: example_gateway_def delivered_def get_field_def example_quote_def
        example_stock_def)
qed


text \<open>
  The \<open>catch\<close> branch is reached from the upstream: when the time-series call is
  answered with a text of 512 characters, the text becomes the \<open>price_history\<close> of
  every stock, the callback raises on the first of them, and the batch fails.
\<close>

lemma details_text:
  "getStockDetails text_gateway s =
     \<lparr>data = Some (example_stock ''AAPL'' (Some 12.5) None (Some (Raw (Text 512)))
                    \<lparr>company_name := Some ''Apple Inc'', price_change := Some 0.25,
                      high_52w := Some 3, low_52w := Some 1\<rparr>),
      error = None, success = True\<rparr>"
proof -
  have nf: "\<not> request_failed (quote_endpoint text_gateway s)"
    by (simp add: text_gateway_def example_gateway_def request_failed_def truthy_body_def)
  have pf: "request_failed (profile_endpoint text_gateway s)"
    by (simp add: text_gateway_def example_gateway_def request_failed_def)
  have ts: "getStockTimeSeries text_gateway s ''1day'' 200
      = \<lparr>data = Some (Raw (Text 512)), error = None, success = True\<rparr>"
    by (rule getStockTimeSeries_raw)
       (simp_all add: text_gateway_def truthy_body_def get_field_def)
  show ?thesis
    unfolding getStockDetails_delivered [OF nf] getStockFundamentals_failed [OF pf] ts
    by (simp add: text_gateway_def example_gateway_def delivered_def get_field_def
        example_quote_def example_stock_def)
qed

lemma upstream_text_fails_batch:
  "screenStocks (aggregate text_gateway) example_completion
     = Some \<lparr>data = None, error = Some ''stock.price_history.map is not a function'',
             success = False\<rparr>"
proof -
  have "raises (aggregate text_gateway ''AAPL'')"
    unfolding aggregate_def details_text
    by (simp add: raises_iff example_stock_def)
  moreover have "''AAPL'' \<in> set (slice 0 10 symbols)" by (simp add: first_ten)
  ultimately have "\<exists>s \<in> set (slice 0 10 symbols). raises (aggregate text_gateway s)"
    by blast
  then show ?thesis
    unfolding screenStocks_eq [OF example_completion_covers]
    by (simp only: if_True not_a_function_def)
qed

section \<open>Price order: screening and chart path\<close>

lemma digit_less:
  "a < 10 \<Longrightarrow> b < 10 \<Longrightarrow> (char_of (48 + a) :: char) < char_of (48 + b) \<longleftrightarrow> a < (b::nat)"
  by (simp add: less_char_def)

lemma digit_eq:
  "a < 10 \<Longrightarrow> b < 10 \<Longrightarrow> (char_of (48 + a) :: char) = char_of (48 + b) \<longleftrightarrow> a = (b::nat)"
  by (simp add: char_of_eq_iff take_bit_eq_mod)

lemma two_digits_lex:
  fixes a c a' c' :: nat
  assumes "10 * a + c \<le> 10 * a' + c'" "c < 10" "c' < 10"
  shows "a < a' \<or> a = a' \<and> c \<le> c'"
  using assms by linarith

lemma digits_lex:
  assumes "i \<le> (j::nat)"
  shows "i div 100 < j div 100
      \<or> i div 100 = j div 100 \<and> (i div 10 mod 10 < j div 10 mod 10
          \<or> i div 10 mod 10 = j div 10 mod 10 \<and> i mod 10 \<le> j mod 10)"
proof (cases "i div 100 < j div 100")
  case True
  then show ?thesis by simp
next
  case False
  moreover have "i div 100 \<le> j div 100" using assms by (rule div_le_mono)
  ultimately have q: "i div 100 = j div 100" by simp
  have "100 * (i div 100) + i mod 100 = i" "100 * (j div 100) + j mod 100 = j"
    by (rule mult_div_mod_eq)+
  with assms q have "i mod 100 \<le> j mod 100" by linarith
  moreover have "i mod (10 * 10) = 10 * (i div 10 mod 10) + i mod 10"
    "j mod (10 * 10) = 10 * (j div 10 mod 10) + j mod 10"
    by (rule mod_mult2_eq)+
  ultimately have "10 * (i div 10 mod 10) + i mod 10 \<le> 10 * (j div 10 mod 10) + j mod 10"
    by simp
  from two_digits_lex [OF this] q show ?thesis by simp
qed

lemma ordinal_date_mono:
  assumes "i \<le> j" "j < 1000"
  shows "ordinal_date i \<le> ordinal_date j"
proof -
  have d: "i div 100 < 10" "j div 100 < 10" "i div 10 mod 10 < 10" "j div 10 mod 10 < 10"
    "i mod 10 < 10" "j mod 10 < 10"
    using assms by simp_all
  note l = digit_less [OF d(1) d(2)] digit_less [OF d(3) d(4)] digit_less [OF d(5) d(6)]
  note e = digit_eq [OF d(1) d(2)] digit_eq [OF d(3) d(4)] digit_eq [OF d(5) d(6)]
  have le: "[char_of (48 + i div 100), char_of (48 + i div 10 mod 10), char_of (48 + i mod 10)]
      \<le> [char_of (48 + j div 100), char_of (48 + j div 10 mod 10), char_of (48 + j mod 10) :: char]"
    using digits_lex [OF assms(1)]
    by (simp only: Cons_le_Cons l e Nil_le_Cons order_refl less_eq_list_code(1)) auto
  show ?thesis
    unfolding ordinal_date_def using le by (simp add: Cons_le_Cons)
qed

lemma sorted_ordinal_dates: "b \<le> 1000 \<Longrightarrow> sorted (map ordinal_date [a..<b])"
proof -
  assume b: "b \<le> 1000"
  have "sorted_wrt (\<lambda>x y. ordinal_date x \<le> ordinal_date y) [a..<b]"
  proof (rule sorted_wrt_mono_rel [where P = "(\<le>)"])
    fix x y assume "x \<in> set [a..<b]" "y \<in> set [a..<b]" "x \<le> y"
    with b show "ordinal_date x \<le> ordinal_date y" by (intro ordinal_date_mono) simp_all
  qed simp
  then show ?thesis by (simp only: sorted_map)
qed

lemma dates_example_bars: "map date (map (example_bar c) ds) = map ordinal_date ds"
  by (simp add: example_bar_def)

lemma dates_falling: "map date falling_history = map ordinal_date (rev [1..<201])"
proof -
  have "[1..<51 + 150] = [1..<51] @ [51..<51 + 150]" by (rule upt_add_eq_append) simp
  then have "[1..<201] = [1..<51] @ [51..<201]" by (simp only: numeral_plus_numeral) simp
  then have "rev [1..<201] = rev [51..<201] @ rev [1..<51]" by (simp only: rev_append)
  then show ?thesis
    unfolding falling_history_def map_append dates_example_bars by (simp only: map_append)
qed

lemma dates_falling_descending: "sorted (rev (map date falling_history))"
  unfolding dates_falling rev_map rev_rev_ident by (rule sorted_ordinal_dates) simp

lemma dates_rising: "map date rising_history = map ordinal_date [1..<201]"
proof -
  have "[1..<101 + 100] = [1..<101] @ [101..<101 + 100]" by (rule upt_add_eq_append) simp
  then have "[1..<201] = [1..<101] @ [101..<201]" by (simp only: numeral_plus_numeral) simp
  then show ?thesis
    unfolding rising_history_def map_append dates_example_bars by (simp only: map_append)
qed

lemma dates_rising_ascending: "sorted (map date rising_history)"
  unfolding dates_rising by (rule sorted_ordinal_dates) simp

lemma dates_rev_rising_descending: "sorted (rev (map date (rev rising_history)))"
  by (simp only: rev_map [symmetric] rev_rev_ident dates_rising_ascending)

lemma rising_stock_fields:
  "price_history (rising_stock bars) = Some (Bars bars)"
  "or_zero (current_price (rising_stock bars)) = 4"
  by (simp_all add: rising_stock_def example_stock_def or_zero_def)

lemma rising_contributions:
  "contribution (fulfilled_with (rising_stock (rev rising_history))) = []"
  "\<not> raises (fulfilled_with (rising_stock (rev rising_history)))"
proof -
  have drops: "\<not> callback_keeps (rising_stock (rev rising_history)) (rev rising_history)"
    by (simp add: callback_keeps_eq length_histories rising_stock_fields last_sma_rev_rising)
  show "contribution (fulfilled_with (rising_stock (rev rising_history))) = []"
    by (subst contribution_fulfilled_with(1) [where bars = "rev rising_history"])
       (simp_all add: rising_stock_fields length_histories drops)
  show "\<not> raises (fulfilled_with (rising_stock (rev rising_history)))"
    by (rule contribution_fulfilled_with(2) [where bars = "rev rising_history"])
       (simp_all add: rising_stock_fields length_histories)
qed

lemma rising_screen:
  "screenStocks (example_details(''NVDA'' := fulfilled_with (rising_stock (rev rising_history))))
     example_completion
   = screenStocks example_details example_completion"
proof -
  let ?d = "example_details(''NVDA'' := fulfilled_with (rising_stock (rev rising_history)))"
  have "contribution (?d s) = contribution (example_details s)
      \<and> raises (?d s) = raises (example_details s)" for s
    using example_contributions(7) example_raises
    by (simp add: rising_contributions first_ten)
  then show ?thesis
    unfolding screenStocks_eq [OF example_completion_covers] by (simp only:)
qed

text \<open>
  C1. \<open>meetsScreening\<close> compares strictly: current price 150 with SMA50 145, SMA100 142
  and SMA200 140 passes, and with SMA50 135 it does not. But \<open>screenStocks\<close> takes the
  three values from a history that it leaves in the order of the upstream, most recent bar
  first, so they are not the most recent ones. \<open>falling_history\<close> arrives in that
  order (its dates descend); in chronological order its most recent SMA50 and SMA100 are
  1, below the most recent SMA200 of 1.5, so a stock priced at 2 fails the rule of the
  specification, and yet \<open>screenStocks\<close> returns AAPL and MSFT, which hold this history,
  in its ranked list. Conversely \<open>rising_history\<close> in chronological order passes the
  rule at a price of 4 (SMA50 3, SMA100 3, SMA200 2); delivered most recent first, the
  callback drops the stock, and the ranked list is the same as without it.
\<close>

theorem screening_on_delivered_order:
  "sorted (rev (map date falling_history))
   \<and> screenStocks example_details example_completion =
       Some \<lparr>data = Some
             [screened (example_stock ''MSFT'' None (Some large_cap) (Some (Bars falling_history)))
                2 3 2 (3 / 2) 30,
              screened (example_stock ''AAPL'' (Some 12.5) None (Some (Bars falling_history)))
                2 3 2 (3 / 2) 12.5],
           error = None, success = True\<rparr>
   \<and> last_sma (rev falling_history) 50 = 1
   \<and> last_sma (rev falling_history) 100 = 1
   \<and> last_sma (rev falling_history) 200 = 3 / 2
   \<and> \<not> passes_rule 2 (rev falling_history)
   \<and> sorted (rev (map date (rev rising_history)))
   \<and> last_sma rising_history 50 = 3
   \<and> last_sma rising_history 100 = 3
   \<and> last_sma rising_history 200 = 2
   \<and> passes_rule 4 rising_history
   \<and> or_zero (current_price (rising_stock (rev rising_history))) = 4
   \<and> screenCallback [] (fulfilled_with (rising_stock (rev rising_history))) = Inr []
   \<and> screenStocks (example_details(''NVDA'' := fulfilled_with (rising_stock (rev rising_history))))
        example_completion
       = screenStocks example_details example_completion
   \<and> meetsScreening 150 (Some 145) (Some 142) (Some 140)
   \<and> \<not> meetsScreening 150 (Some 135) (Some 142) (Some 140)"
proof -
  have "\<not> passes_rule 2 (rev falling_history)"
    by (simp add: passes_rule_def last_sma_rev_falling)
  moreover have "passes_rule 4 rising_history"
    by (simp add: passes_rule_def last_sma_rising)
  moreover have "screenCallback [] (fulfilled_with (rising_stock (rev rising_history))) = Inr []"
    by (simp add: screenCallback_split [of "[]"] rising_contributions)
  moreover have "meetsScreening 150 (Some 145) (Some 142) (Some 140)"
    "\<not> meetsScreening 150 (Some 135) (Some 142) (Some 140)"
    by (simp_all add: meetsScreening_Some)
  moreover note dates_falling_descending dates_rev_rising_descending example_screen
    last_sma_rev_falling last_sma_rising rising_stock_fields(2) rising_screen
  ultimately show ?thesis by (intro conjI) assumption+
qed

lemma getChartData_bars:
  assumes "getStockTimeSeries gw s ''1day'' 200 = \<lparr>data = Some (Bars ph), error = e, success = True\<rparr>"
  shows "getChartData gw s =
     Fulfilled \<lparr>data = Some \<lparr>dates = rev (map date ph), prices = rev (map close ph),
                             sma50_chart = calculateSMA (rev (map close ph)) 50,
                             sma100_chart = calculateSMA (rev (map close ph)) 100,
                             sma200_chart = calculateSMA (rev (map close ph)) 200\<rparr>,
                error = None, success = True\<rparr>"
  by (simp add: getChartData_def assms Let_def)

lemma getChartData_ascending:
  assumes "getStockTimeSeries gw s ''1day'' 200 = \<lparr>data = Some (Bars ph), error = e, success = True\<rparr>"
    and "sorted (rev (map date ph))"
  shows "\<exists>chart. getChartData gw s = Fulfilled \<lparr>data = Some chart, error = None, success = True\<rparr>
     \<and> sorted (dates chart) \<and> dates chart = rev (map date ph)
     \<and> prices chart = rev (map close ph)
     \<and> sma50_chart chart = calculateSMA (prices chart) 50
     \<and> sma100_chart chart = calculateSMA (prices chart) 100
     \<and> sma200_chart chart = calculateSMA (prices chart) 200"
  using assms(2) by (simp add: getChartData_bars [OF assms(1)])

lemma aapl_callback:
  "screenCallback []
        (fulfilled_with (example_stock ''AAPL'' (Some 12.5) None (Some (Bars falling_history))))
       = Inr [screened (example_stock ''AAPL'' (Some 12.5) None (Some (Bars falling_history)))
            2 3 2 (3 / 2) 12.5]"
proof -
  have "\<not> raises (example_details ''AAPL'')" by (rule example_raises) (simp add: first_ten)
  with example_contributions(1) have "screenCallback [] (example_details ''AAPL'')
       = Inr [screened (example_stock ''AAPL'' (Some 12.5) None (Some (Bars falling_history)))
            2 3 2 (3 / 2) 12.5]"
    by (simp add: screenCallback_split [of "[]"])
  then show ?thesis by (simp only: example_details_simps)
qed

lemma meta_callback:
  "screenCallback []
        (fulfilled_with (example_stock ''META'' (Some 50) None (Some (Bars flat_history))))
     = Inr []"
proof -
  have "\<not> raises (example_details ''META'')" by (rule example_raises) (simp add: first_ten)
  with example_contributions(6) have "screenCallback [] (example_details ''META'') = Inr []"
    by (simp add: screenCallback_split [of "[]"])
  then show ?thesis by (simp only: example_details_simps)
qed

text \<open>
  C4. The chart path reverses dates and closes before it computes the moving averages,
  batch screening does not. On \<open>falling_history\<close>, which arrives most recent first
  (its dates descend), screening computes the indicators over the closes as they arrive:
  its SMA50 is the mean of the 50 oldest bars and the stock passes, although over the
  series in chronological order the most recent SMA50 is 1, below the SMA200 of 1.5, and
  the pass/fail rule fails. \<open>getChartData\<close> on the same series returns dates and prices
  in ascending order with the averages computed over the reversed closes.
\<close>

theorem screening_without_reversal:
  "map date falling_history = map ordinal_date (rev [1..<201])
   \<and> sorted (rev (map date falling_history))
   \<and> map close falling_history = replicate 150 1 @ replicate 50 3
   \<and> screenCallback []
        (fulfilled_with (example_stock ''AAPL'' (Some 12.5) None (Some (Bars falling_history))))
       = Inr [screened (example_stock ''AAPL'' (Some 12.5) None (Some (Bars falling_history)))
            2 3 2 (3 / 2) 12.5]
   \<and> last_sma (rev falling_history) 50 = 1
   \<and> last_sma (rev falling_history) 100 = 1
   \<and> last_sma (rev falling_history) 200 = 3 / 2
   \<and> \<not> passes_rule 2 (rev falling_history)
   \<and> getChartData example_gateway ''AAPL'' =
       Fulfilled \<lparr>data = Some \<lparr>dates = map ordinal_date [1..<201],
                               prices = replicate 50 3 @ replicate 150 1,
                               sma50_chart = calculateSMA (replicate 50 3 @ replicate 150 1) 50,
                               sma100_chart = calculateSMA (replicate 50 3 @ replicate 150 1) 100,
                               sma200_chart = calculateSMA (replicate 50 3 @ replicate 150 1) 200\<rparr>,
                  error = None, success = True\<rparr>"
proof -
  have np: "\<not> passes_rule 2 (rev falling_history)"
    by (simp add: passes_rule_def last_sma_rev_falling)
  have chart: "getChartData example_gateway ''AAPL'' =
       Fulfilled \<lparr>data = Some \<lparr>dates = map ordinal_date [1..<201],
                               prices = replicate 50 3 @ replicate 150 1,
                               sma50_chart = calculateSMA (replicate 50 3 @ replicate 150 1) 50,
                               sma100_chart = calculateSMA (replicate 50 3 @ replicate 150 1) 100,
                               sma200_chart = calculateSMA (replicate 50 3 @ replicate 150 1) 200\<rparr>,
                  error = None, success = True\<rparr>"
    unfolding getChartData_bars [OF timeSeries_example] dates_falling
    by (simp only: rev_map closes_rev_falling rev_rev_ident)
  from dates_falling dates_falling_descending closes_falling aapl_callback last_sma_rev_falling(2,3,1)
    np chart
  show ?thesis by (intro conjI) assumption+
qed

section \<open>Screening results\<close>

text \<open>
  C6 (as stated, fails). A successfully aggregated stock with 200 bars of history carries
  no screening result when \<open>getStockDetails\<close> returns it, and a stock with 200 bars
  that the screening callback does not keep gets none from the callback either.
\<close>

theorem screening_result_counterexample:
  "map_option price_history (data (getStockDetails example_gateway ''AAPL''))
     = Some (Some (Bars falling_history))
   \<and> length falling_history = 200
   \<and> map_option screening_result (data (getStockDetails example_gateway ''AAPL'')) = Some None
   \<and> price_history (example_stock ''META'' (Some 50) None (Some (Bars flat_history)))
       = Some (Bars flat_history)
   \<and> length flat_history = 200
   \<and> screenCallback []
        (fulfilled_with (example_stock ''META'' (Some 50) None (Some (Bars flat_history))))
       = Inr []"
  using meta_callback
  by (simp add: details_example length_histories example_stock_history example_stock_def)

lemma screenCallback_no_history:
  assumes "success v" "data v = Some stock"
    and "price_history stock = None
         \<or> (\<exists>bars. price_history stock = Some (Bars bars) \<and> length bars < 200)"
  shows "screenCallback stocks (Fulfilled v) = Inr stocks"
  using assms by (auto simp add: screenCallback_def)

lemma screened_result:
  assumes "200 \<le> length bars" "callback_keeps stock bars"
  shows "\<exists>res. screened stock (or_zero (current_price stock)) (last_sma bars 50)
                 (last_sma bars 100) (last_sma bars 200) (calculateScore stock)
               = stock\<lparr>screening_result := Some res\<rparr>
           \<and> price_above_sma200 res \<and> sma50_above_sma200 res \<and> sma100_above_sma200 res
           \<and> passes_all_criteria res \<and> meets_all_criteria res
           \<and> meetsScreening (current_price_result res) (sma50 res) (sma100 res) (sma200 res)
           \<and> current_price_result res = or_zero (current_price stock)
           \<and> score res = calculateScore stock"
proof -
  let ?res = "\<lparr>price_above_sma200 = True, sma50_above_sma200 = True,
      sma100_above_sma200 = True, current_price_result = or_zero (current_price stock),
      sma50 = Some (last_sma bars 50), sma100 = Some (last_sma bars 100),
      sma200 = Some (last_sma bars 200), passes_all_criteria = True,
      meets_all_criteria = True, score = calculateScore stock\<rparr>"
  from assms(2) have "meetsScreening (or_zero (current_price stock)) (Some (last_sma bars 50))
      (Some (last_sma bars 100)) (Some (last_sma bars 200))"
    unfolding callback_keeps_eq [OF assms(1)] by (simp add: meetsScreening_Some)
  then show ?thesis
    by (intro exI [where x = ?res]) (simp add: screened_def)
qed

lemma screenCallback_attaches:
  assumes "screenCallback stocks r = Inr stocks'"
  shows "stocks' = stocks
     \<or> (\<exists>v stock bars res. r = Fulfilled v \<and> success v \<and> data v = Some stock
           \<and> price_history stock = Some (Bars bars) \<and> 200 \<le> length bars
           \<and> stocks' = stocks @ [stock\<lparr>screening_result := Some res\<rparr>]
           \<and> price_above_sma200 res \<and> sma50_above_sma200 res \<and> sma100_above_sma200 res
           \<and> passes_all_criteria res \<and> meets_all_criteria res
           \<and> meetsScreening (current_price_result res) (sma50 res) (sma100 res) (sma200 res)
           \<and> current_price_result res = or_zero (current_price stock)
           \<and> score res = calculateScore stock)"
proof (cases "contribution r")
  case Nil
  with assms show ?thesis by (simp add: screenCallback_split split: if_splits)
next
  case (Cons out rest)
  then have "out \<in> set (contribution r)" by simp
  from contribution_elem [OF this] obtain v stock bars where
    h: "r = Fulfilled v" "data v = Some stock" "success v"
      "price_history stock = Some (Bars bars)" "200 \<le> length bars"
      "callback_keeps stock bars"
    by blast
  from contribution_bars(1) [OF h(2-5)] h(1,6)
  have "contribution r = [screened stock (or_zero (current_price stock)) (last_sma bars 50)
              (last_sma bars 100) (last_sma bars 200) (calculateScore stock)]"
    by simp
  with assms have st: "stocks' = stocks @
      [screened stock (or_zero (current_price stock)) (last_sma bars 50)
         (last_sma bars 100) (last_sma bars 200) (calculateScore stock)]"
    by (simp add: screenCallback_split split: if_splits)
  from screened_result [OF h(5,6)] obtain res where
    "screened stock (or_zero (current_price stock)) (last_sma bars 50)
                 (last_sma bars 100) (last_sma bars 200) (calculateScore stock)
               = stock\<lparr>screening_result := Some res\<rparr>"
    "price_above_sma200 res" "sma50_above_sma200 res" "sma100_above_sma200 res"
    "passes_all_criteria res" "meets_all_criteria res"
    "meetsScreening (current_price_result res) (sma50 res) (sma100 res) (sma200 res)"
    "current_price_result res = or_zero (current_price stock)"
    "score res = calculateScore stock"
    by (elim exE conjE) (rule that, assumption+)
  with st h show ?thesis by (intro disjI2 exI conjI) (assumption | simp)+
qed

lemma ranked_result:
  assumes "out \<in> set (contribution r)"
  shows "\<exists>res bars.
           screening_result out = Some res \<and> price_history out = Some (Bars bars)
           \<and> 200 \<le> length bars
           \<and> price_above_sma200 res \<and> sma50_above_sma200 res \<and> sma100_above_sma200 res
           \<and> passes_all_criteria res \<and> meets_all_criteria res
           \<and> meetsScreening (current_price_result res) (sma50 res) (sma100 res) (sma200 res)
           \<and> current_price_result res = or_zero (current_price out)
           \<and> score res = calculateScore out"
proof -
  from contribution_elem [OF assms] obtain stock bars where
    h: "price_history stock = Some (Bars bars)" "200 \<le> length bars"
      "callback_keeps stock bars"
      "out = screened stock (or_zero (current_price stock)) (last_sma bars 50)
                     (last_sma bars 100) (last_sma bars 200) (calculateScore stock)"
    by blast
  from h(3) have "meetsScreening (or_zero (current_price stock)) (Some (last_sma bars 50))
      (Some (last_sma bars 100)) (Some (last_sma bars 200))"
    unfolding callback_keeps_eq [OF h(2)] by (simp add: meetsScreening_Some)
  with h(1,2) show ?thesis
    unfolding h(4) by (simp add: screened_fields)
qed

text \<open>
  C6 (amended). \<open>getStockDetails\<close> never attaches a screening result. The screening
  callback either leaves its array as it is, attaching nothing, or appends the stock with
  a screening result attached; it does the latter only for a successfully aggregated stock
  whose history is present with at least 200 bars, and never when the history is absent or
  shorter. So a result is attached exactly to the stocks that are kept for the ranked
  output: every stock of a returned list carries a screening result and has at least 200
  bars, the three flags of its result are true, the values it records satisfy the three
  comparisons, and its score is the composite score of the stock.
\<close>

theorem screening_result_attached:
  "(\<forall>stock. data (getStockDetails gw s) = Some stock \<longrightarrow> screening_result stock = None)
   \<and> (\<forall>stocks'. screenCallback stocks r = Inr stocks' \<longrightarrow>
         stocks' = stocks
         \<or> (\<exists>v stock bars res. r = Fulfilled v \<and> success v \<and> data v = Some stock
               \<and> price_history stock = Some (Bars bars) \<and> 200 \<le> length bars
               \<and> stocks' = stocks @ [stock\<lparr>screening_result := Some res\<rparr>]
               \<and> price_above_sma200 res \<and> sma50_above_sma200 res \<and> sma100_above_sma200 res
               \<and> passes_all_criteria res \<and> meets_all_criteria res
               \<and> meetsScreening (current_price_result res) (sma50 res) (sma100 res) (sma200 res)
               \<and> current_price_result res = or_zero (current_price stock)
               \<and> score res = calculateScore stock))
   \<and> (success v \<and> data v = Some stock
        \<and> (price_history stock = None
            \<or> (\<exists>bars. price_history stock = Some (Bars bars) \<and> length bars < 200)) \<longrightarrow>
        screenCallback stocks (Fulfilled v) = Inr stocks)
   \<and> ({..<10} \<subseteq> set completion \<longrightarrow>
        (\<exists>response. screenStocks details completion = Some response
           \<and> (\<forall>ranked. data response = Some ranked \<longrightarrow>
                (\<forall>out \<in> set ranked. \<exists>res bars.
                   screening_result out = Some res \<and> price_history out = Some (Bars bars)
                   \<and> 200 \<le> length bars
                   \<and> price_above_sma200 res \<and> sma50_above_sma200 res \<and> sma100_above_sma200 res
                   \<and> passes_all_criteria res \<and> meets_all_criteria res
                   \<and> meetsScreening (current_price_result res) (sma50 res) (sma100 res)
                        (sma200 res)
                   \<and> current_price_result res = or_zero (current_price out)
                   \<and> score res = calculateScore out))))"
proof (intro conjI)
  show "\<forall>stock. data (getStockDetails gw s) = Some stock \<longrightarrow> screening_result stock = None"
    using getStockDetails_no_result by blast
  show "\<forall>stocks'. screenCallback stocks r = Inr stocks' \<longrightarrow>
         stocks' = stocks
         \<or> (\<exists>v stock bars res. r = Fulfilled v \<and> success v \<and> data v = Some stock
               \<and> price_history stock = Some (Bars bars) \<and> 200 \<le> length bars
               \<and> stocks' = stocks @ [stock\<lparr>screening_result := Some res\<rparr>]
               \<and> price_above_sma200 res \<and> sma50_above_sma200 res \<and> sma100_above_sma200 res
               \<and> passes_all_criteria res \<and> meets_all_criteria res
               \<and> meetsScreening (current_price_result res) (sma50 res) (sma100 res) (sma200 res)
               \<and> current_price_result res = or_zero (current_price stock)
               \<and> score res = calculateScore stock)"
    by (intro allI impI) (rule screenCallback_attaches)
  show "success v \<and> data v = Some stock
        \<and> (price_history stock = None
            \<or> (\<exists>bars. price_history stock = Some (Bars bars) \<and> length bars < 200)) \<longrightarrow>
        screenCallback stocks (Fulfilled v) = Inr stocks"
    using screenCallback_no_history [of v stock stocks] by blast
  show "{..<10} \<subseteq> set completion \<longrightarrow>
        (\<exists>response. screenStocks details completion = Some response
           \<and> (\<forall>ranked. data response = Some ranked \<longrightarrow>
                (\<forall>out \<in> set ranked. \<exists>res bars.
                   screening_result out = Some res \<and> price_history out = Some (Bars bars)
                   \<and> 200 \<le> length bars
                   \<and> price_above_sma200 res \<and> sma50_above_sma200 res \<and> sma100_above_sma200 res
                   \<and> passes_all_criteria res \<and> meets_all_criteria res
                   \<and> meetsScreening (current_price_result res) (sma50 res) (sma100 res)
                        (sma200 res)
                   \<and> current_price_result res = or_zero (current_price out)
                   \<and> score res = calculateScore out)))"
  proof
    assume cov: "{..<10} \<subseteq> set completion"
    then show "\<exists>response. screenStocks details completion = Some response
           \<and> (\<forall>ranked. data response = Some ranked \<longrightarrow>
                (\<forall>out \<in> set ranked. \<exists>res bars.
                   screening_result out = Some res \<and> price_history out = Some (Bars bars)
                   \<and> 200 \<le> length bars
                   \<and> price_above_sma200 res \<and> sma50_above_sma200 res \<and> sma100_above_sma200 res
                   \<and> passes_all_criteria res \<and> meets_all_criteria res
                   \<and> meetsScreening (current_price_result res) (sma50 res) (sma100 res)
                        (sma200 res)
                   \<and> current_price_result res = or_zero (current_price out)
                   \<and> score res = calculateScore out))"
    proof (cases rule: screenStocks_cases [where details = details])
      case raised
      then show ?thesis by simp
    next
      case (listed ranked)
      have "\<exists>res bars.
                   screening_result out = Some res \<and> price_history out = Some (Bars bars)
                   \<and> 200 \<le> length bars
                   \<and> price_above_sma200 res \<and> sma50_above_sma200 res \<and> sma100_above_sma200 res
                   \<and> passes_all_criteria res \<and> meets_all_criteria res
                   \<and> meetsScreening (current_price_result res) (sma50 res) (sma100 res)
                        (sma200 res)
                   \<and> current_price_result res = or_zero (current_price out)
                   \<and> score res = calculateScore out" if "out \<in> set ranked" for out
      proof -
        from that listed(4) obtain s where "out \<in> set (contribution (details s))" by auto
        then show ?thesis by (rule ranked_result)
      qed
      with listed(2) show ?thesis by simp
    qed
  qed
qed

lemma keeps_rising: "callback_keeps (rising_stock rising_history) rising_history"
  by (simp add: callback_keeps_eq length_histories rising_stock_fields last_sma_rising)

lemma score_rising: "calculateScore (rising_stock bars) = 10"
  by (simp add: calculateScore_def rising_stock_def example_stock_def)

lemma rising_callback:
  "screenCallback [] (fulfilled_with (rising_stock rising_history))
     = Inr [screened (rising_stock rising_history) 4 3 3 2 10]"
proof -
  have "screenCallback [] (fulfilled_with (rising_stock rising_history)) =
     Inr (if callback_keeps (rising_stock rising_history) rising_history
          then [] @ [screened (rising_stock rising_history)
                        (or_zero (current_price (rising_stock rising_history)))
                        (last_sma rising_history 50) (last_sma rising_history 100)
                        (last_sma rising_history 200) (calculateScore (rising_stock rising_history))]
          else [])"
    unfolding fulfilled_with_def
    by (rule screenCallback_bars) (simp_all add: rising_stock_fields length_histories)
  then show ?thesis
    by (simp add: keeps_rising rising_stock_fields last_sma_rising score_rising)
qed

theorem screening_result_attached_witness:
  "map_option screening_result (data (getStockDetails example_gateway ''AAPL'')) = Some None
   \<and> length rising_history = 200
   \<and> screenCallback [] (fulfilled_with (rising_stock rising_history))
       = Inr [screened (rising_stock rising_history) 4 3 3 2 10]
   \<and> map (map_option score \<circ> screening_result)
        [screened (rising_stock rising_history) 4 3 3 2 10] = [Some 10]
   \<and> length short_history = 150
   \<and> screenCallback []
        (fulfilled_with (example_stock ''TSLA'' (Some 50) None (Some (Bars short_history))))
       = Inr []
   \<and> {..<10} \<subseteq> set example_completion"
proof -
  let ?nvda = "rising_stock rising_history"
  let ?tsla = "example_stock ''TSLA'' (Some 50) None (Some (Bars short_history))"
  note t = screening_result_attached [where gw = example_gateway and s = "''AAPL''"]
  have d: "data (getStockDetails example_gateway ''AAPL'') =
      Some ((example_stock ''AAPL'' (Some 12.5) None (Some (Bars falling_history)))
              \<lparr>company_name := Some ''Apple Inc'', price_change := Some 0.25,
                high_52w := Some 3, low_52w := Some 1\<rparr>)"
    by (simp add: details_example)
  from t [THEN conjunct1, rule_format, OF d]
  have none: "map_option screening_result (data (getStockDetails example_gateway ''AAPL''))
      = Some None" by (simp add: d)
  from screening_result_attached [where stocks = "[]" and r = "fulfilled_with ?nvda",
      THEN conjunct2, THEN conjunct1, rule_format, OF rising_callback]
  have "\<exists>stock res. [screened ?nvda 4 3 3 2 10] = [] @ [stock\<lparr>screening_result := Some res\<rparr>]
      \<and> score res = calculateScore stock \<and> data \<lparr>data = Some ?nvda, error = None,
          success = True\<rparr> = Some stock"
    by (auto simp add: fulfilled_with_def)
  then have sc: "map (map_option score \<circ> screening_result) [screened ?nvda 4 3 3 2 10]
      = [Some 10]"
    by (auto simp add: score_rising)
  have pre': "success \<lparr>data = Some ?tsla, error = None, success = True\<rparr>
      \<and> data \<lparr>data = Some ?tsla, error = None, success = True\<rparr> = Some ?tsla
      \<and> (price_history ?tsla = None
          \<or> (\<exists>bars. price_history ?tsla = Some (Bars bars) \<and> length bars < 200))"
    by (simp add: example_stock_history length_histories)
  from screening_result_attached [where stock = "?tsla" and stocks = "[]"
      and v = "\<lparr>data = Some ?tsla, error = None, success = True\<rparr>",
      THEN conjunct2, THEN conjunct2, THEN conjunct1, rule_format, OF pre']
  have short: "screenCallback [] (fulfilled_with ?tsla) = Inr []"
    by (simp only: fulfilled_with_def)
  from none length_histories(4) rising_callback sc length_histories(3) short
    example_completion_covers
  show ?thesis by (intro conjI) assumption+
qed

end
